theory Spec2Isabelle
  imports Main
begin

section \<open>JavaScript values handled by the Mantis gateway\<close>

text \<open>
  The gateway (\<^verbatim>\<open>src/services/mantisApi.ts\<close>) passes untyped JSON and parsed XML around
  (\<^verbatim>\<open>any\<close>); the model keeps that: a value is one of the JavaScript value kinds.
  A JavaScript number is \<open>NaN\<close> or an integer (ids, HTTP statuses and millisecond
  timestamps are integral); an object is its list of properties in insertion order,
  read by name.
\<close>

datatype jsnum = NaN | Num int

datatype jsval =
    JUndefined
  | JNull
  | JBool bool
  | JNumber jsnum
  | JString string
  | JArray "jsval list"
  | JObject "(string \<times> jsval) list"

text \<open>Truthiness, as tested by \<^verbatim>\<open>if (x)\<close>, \<^verbatim>\<open>!x\<close>, \<^verbatim>\<open>x || y\<close> and \<^verbatim>\<open>x ? a : b\<close>.\<close>

fun truthy :: "jsval \<Rightarrow> bool" where
  "truthy JUndefined = False"
| "truthy JNull = False"
| "truthy (JBool b) = b"
| "truthy (JNumber NaN) = False"
| "truthy (JNumber (Num n)) = (n \<noteq> 0)"
| "truthy (JString s) = (s \<noteq> [])"
| "truthy (JArray xs) = True"
| "truthy (JObject kvs) = True"

fun nullish :: "jsval \<Rightarrow> bool" where
  "nullish JUndefined = True"
| "nullish JNull = True"
| "nullish v = False"


text \<open>\<^verbatim>\<open>a || b\<close>\<close>

definition or_js :: "jsval \<Rightarrow> jsval \<Rightarrow> jsval" where
  "or_js a b = (if truthy a then a else b)"

text \<open>
  \<^verbatim>\<open>v?.k\<close>, and \<^verbatim>\<open>v.k\<close> on a receiver known not to be \<^verbatim>\<open>null\<close>/\<^verbatim>\<open>undefined\<close>, for the
  property names the gateway reads (none of them is defined on a string, number,
  boolean or array). Where the source reads \<^verbatim>\<open>v.k\<close> on a receiver that may be nullish,
  the model tests \<open>nullish v\<close> first and raises the \<^verbatim>\<open>TypeError\<close>.
\<close>

fun getProp :: "jsval \<Rightarrow> string \<Rightarrow> jsval" where
  "getProp (JObject kvs) k = (case map_of kvs k of Some v \<Rightarrow> v | None \<Rightarrow> JUndefined)"
| "getProp v k = JUndefined"

text \<open>\<^verbatim>\<open>Array.prototype.join\<close> on strings.\<close>

fun join :: "string \<Rightarrow> string list \<Rightarrow> string" where
  "join sep [] = []"
| "join sep [x] = x"
| "join sep (x # y # ys) = x @ sep @ join sep (y # ys)"

text \<open>Decimal digits of a natural number (\<^verbatim>\<open>Number.prototype.toString\<close> on an integer
  of magnitude below \<open>10^21\<close>).\<close>

fun digits :: "nat \<Rightarrow> string" where
  "digits n = (if n < 10 then [''0123456789'' ! n]
               else digits (n div 10) @ [''0123456789'' ! (n mod 10)])"

text \<open>
  The string that \<^verbatim>\<open>String(v)\<close>, the conversion applied by template literals
  \<^verbatim>\<open>`${v}`\<close>, returns when it returns: an array joins its elements with commas, \<^verbatim>\<open>null\<close>
  and \<^verbatim>\<open>undefined\<close> elements printing empty, and an object prints through
  \<^verbatim>\<open>Object.prototype.toString\<close>. On the numbers, strings and string arrays that the typed
  parameters of the REST operations hold, the conversion always returns; \<open>ownToString\<close>
  below says when it raises.
\<close>

fun ToString :: "jsval \<Rightarrow> string" where
  "ToString JUndefined = ''undefined''"
| "ToString JNull = ''null''"
| "ToString (JBool b) = (if b then ''true'' else ''false'')"
| "ToString (JNumber NaN) = ''NaN''"
| "ToString (JNumber (Num n)) = (if n < 0 then ''-'' @ digits (nat (- n)) else digits (nat n))"
| "ToString (JString s) = s"
| "ToString (JArray xs) =
     join '','' (map (\<lambda>x. case x of JUndefined \<Rightarrow> [] | JNull \<Rightarrow> [] | _ \<Rightarrow> ToString x) xs)"
| "ToString (JObject kvs) = ''[object Object]''"

text \<open>
  When the conversion of a value to a primitive raises. An object that holds an own
  property \<^verbatim>\<open>toString\<close> (parsed from a child element or a JSON member of that name, so
  never a function) has no callable \<^verbatim>\<open>toString\<close>, and the \<^verbatim>\<open>valueOf\<close> it inherits returns
  the object itself: \<^verbatim>\<open>OrdinaryToPrimitive\<close> raises a \<^verbatim>\<open>TypeError\<close>, for \<^verbatim>\<open>String\<close> and for
  \<^verbatim>\<open>Number\<close> alike. An array raises when \<^verbatim>\<open>join\<close> converts such an element.
\<close>

fun ownToString :: "jsval \<Rightarrow> bool" where
  "ownToString (JObject kvs) = (map_of kvs ''toString'' \<noteq> None)"
| "ownToString (JArray xs) = list_ex ownToString xs"
| "ownToString v = False"

text \<open>
  The number that \<^verbatim>\<open>Number(v)\<close> returns when it returns. The conversion of a string is
  the runtime's \<^verbatim>\<open>StringToNumber\<close>, which is not code of this repository: it is the
  parameter \<open>s2n\<close>. An array or an object is converted through its string form, as
  \<^verbatim>\<open>ToPrimitive\<close> does.
\<close>

fun ToNumber :: "(string \<Rightarrow> jsnum) \<Rightarrow> jsval \<Rightarrow> jsnum" where
  "ToNumber s2n JUndefined = NaN"
| "ToNumber s2n JNull = Num 0"
| "ToNumber s2n (JBool b) = Num (if b then 1 else 0)"
| "ToNumber s2n (JNumber n) = n"
| "ToNumber s2n (JString s) = s2n s"
| "ToNumber s2n (JArray xs) = s2n (ToString (JArray xs))"
| "ToNumber s2n (JObject kvs) = s2n (ToString (JObject kvs))"

text \<open>
  \<^verbatim>\<open>encodeURIComponent\<close> on a well-formed string, read as its UTF-8 bytes: the unreserved
  characters stay, every other byte becomes \<^verbatim>\<open>%XX\<close>.
\<close>

definition uriUnreserved :: "char \<Rightarrow> bool" where
  "uriUnreserved c \<longleftrightarrow>
     c \<in> set ''ABCDEFGHIJKLMNOPQRSTUVWXYZabcdefghijklmnopqrstuvwxyz0123456789-_.!~*'()''"

definition hexDigit :: "nat \<Rightarrow> char" where
  "hexDigit n = ''0123456789ABCDEF'' ! (n mod 16)"

definition encodeURIComponent :: "string \<Rightarrow> string" where
  "encodeURIComponent s =
     concat (map (\<lambda>c. if uriUnreserved c then [c]
                      else [CHR ''%'', hexDigit (of_char c div 16), hexDigit (of_char c)]) s)"

section \<open>Errors\<close>

text \<open>
  What a \<^verbatim>\<open>throw\<close> can carry: a \<^verbatim>\<open>MantisApiError\<close> (message, \<^verbatim>\<open>statusCode\<close>, \<^verbatim>\<open>response\<close>;
  an omitted \<^verbatim>\<open>statusCode\<close> is \<open>None\<close>, an omitted \<^verbatim>\<open>response\<close> is \<open>JUndefined\<close>), any other
  \<^verbatim>\<open>Error\<close> instance with its message (a \<^verbatim>\<open>TypeError\<close> of the runtime, an \<^verbatim>\<open>AxiosError\<close>),
  or a value that is no \<^verbatim>\<open>Error\<close>.
\<close>

datatype thrown =
    MantisApiError string "int option" jsval
  | JsError string
  | NonError jsval

fun statusCode :: "thrown \<Rightarrow> int option" where
  "statusCode (MantisApiError m c r) = c"
| "statusCode e = None"

fun isMantisApiError :: "thrown \<Rightarrow> bool" where
  "isMantisApiError (MantisApiError m c r) = True"
| "isMantisApiError e = False"

text \<open>The runtime's \<^verbatim>\<open>TypeError\<close> for a property read on \<^verbatim>\<open>null\<close>/\<^verbatim>\<open>undefined\<close>, a call
  of a non-function or a conversion to a primitive that fails; the message text is the
  engine's.\<close>

definition TypeError :: thrown where
  "TypeError = JsError ''TypeError''"


text \<open>\<^verbatim>\<open>Number(v)\<close>\<close>

definition Number_js :: "(string \<Rightarrow> jsnum) \<Rightarrow> jsval \<Rightarrow> thrown + jsnum" where
  "Number_js s2n v = (if ownToString v then Inl TypeError else Inr (ToNumber s2n v))"

text \<open>\<^verbatim>\<open>Number(v) || 0\<close>\<close>

definition NumberOr0 :: "(string \<Rightarrow> jsnum) \<Rightarrow> jsval \<Rightarrow> thrown + jsnum" where
  "NumberOr0 s2n v =
     (case Number_js s2n v of
        Inl e \<Rightarrow> Inl e
      | Inr n \<Rightarrow> Inr (if truthy (JNumber n) then n else Num 0))"

text \<open>Sequencing of steps that may throw: the first throw ends the evaluation.\<close>

definition bindT :: "thrown + 'a \<Rightarrow> ('a \<Rightarrow> thrown + 'b) \<Rightarrow> thrown + 'b" where
  "bindT m f = (case m of Inl e \<Rightarrow> Inl e | Inr x \<Rightarrow> f x)"

section \<open>The HTTP client and its response interceptor\<close>

datatype axios_response =
  AxiosResponse (resp_status: int) (resp_statusText: string) (resp_data: jsval)

text \<open>The error axios rejects with: \<^verbatim>\<open>error.response\<close> when the server answered with an
  error status, \<^verbatim>\<open>error.request\<close> when the request left but no answer came, and
  \<^verbatim>\<open>error.message\<close>.\<close>

record axios_error =
  err_response :: "axios_response option"
  err_request :: bool
  err_message :: string

datatype request = Get string | Post string jsval | Patch string jsval

text \<open>
  The tracker and the network: what a request is answered with, given the requests
  sent before it, and the milliseconds that pass until the answer.
\<close>

type_synonym server = "request list \<Rightarrow> request \<Rightarrow> (axios_error + axios_response) \<times> int"

text \<open>Lines 155-186: the interceptor installed on \<^verbatim>\<open>this.api\<close>.\<close>

definition responseInterceptor :: "axios_error + axios_response \<Rightarrow> thrown + axios_response" where
  "responseInterceptor outcome =
     (case outcome of
        Inr response \<Rightarrow> Inr response
      | Inl error \<Rightarrow>
          (case err_response error of
             Some r \<Rightarrow>
               Inl (MantisApiError
                      (''API error: '' @ ToString (JNumber (Num (resp_status r))) @ '' '' @ resp_statusText r)
                      (Some (resp_status r))
                      (resp_data r))
           | None \<Rightarrow>
               if err_request error
               then Inl (MantisApiError ''No API response received'' (Some 0) JUndefined)
               else Inl (MantisApiError (''Request error: '' @ err_message error) None JUndefined)))"

text \<open>The three failure kinds of section 4.1, read off the axios error in the
  interceptor's branch order, and read off \<^verbatim>\<open>statusCode\<close> by a caller.\<close>

datatype failure_kind = HttpStatusError | NoResponse | RequestError

definition kindOfAxiosError :: "axios_error \<Rightarrow> failure_kind" where
  "kindOfAxiosError error =
     (case err_response error of
        Some r \<Rightarrow> HttpStatusError
      | None \<Rightarrow> if err_request error then NoResponse else RequestError)"

definition kindOfStatusCode :: "int option \<Rightarrow> failure_kind" where
  "kindOfStatusCode c =
     (case c of None \<Rightarrow> RequestError | Some n \<Rightarrow> if n = 0 then NoResponse else HttpStatusError)"

section \<open>The gateway's state\<close>

record cache_entry =
  data :: jsval
  timestamp :: int

text \<open>
  \<open>cache\<close> is the \<^verbatim>\<open>Map\<close> of the \<^verbatim>\<open>MantisApi\<close> object, \<open>clock\<close> what \<^verbatim>\<open>Date.now()\<close> returns,
  \<open>sent\<close> the requests issued through \<^verbatim>\<open>this.api\<close> so far.
\<close>

record mantis =
  cache :: "string \<rightharpoonup> cache_entry"
  clock :: int
  sent :: "request list"

record config =
  CACHE_ENABLED :: bool
  CACHE_TTL_SECONDS :: int

text \<open>\<^verbatim>\<open>this.api.get/post/patch\<close>: the request is answered by the server, passes the
  interceptor, and time passes.\<close>

definition api :: "server \<Rightarrow> request \<Rightarrow> mantis \<Rightarrow> (thrown + axios_response) \<times> mantis" where
  "api srv rq s =
     (case srv (sent s) rq of
        (outcome, elapsed) \<Rightarrow>
          (responseInterceptor outcome,
           s\<lparr>clock := clock s + elapsed, sent := sent s @ [rq]\<rparr>))"

text \<open>Lines 190-221.\<close>

definition cachedRequest ::
  "config \<Rightarrow> string \<Rightarrow> (mantis \<Rightarrow> (thrown + axios_response) \<times> mantis) \<Rightarrow> mantis
     \<Rightarrow> (thrown + jsval) \<times> mantis" where
  "cachedRequest cfg key requestFn s =
     (case (if CACHE_ENABLED cfg
            then (case cache s key of
                    Some cachedData \<Rightarrow>
                      if clock s - timestamp cachedData < CACHE_TTL_SECONDS cfg * 1000
                      then Some (data cachedData) else None
                  | None \<Rightarrow> None)
            else None) of
        Some d \<Rightarrow> (Inr d, s)
      | None \<Rightarrow>
          (case requestFn s of
             (Inl e, s') \<Rightarrow> (Inl e, s')
           | (Inr response, s') \<Rightarrow>
               (Inr (resp_data response),
                if CACHE_ENABLED cfg
                then s'\<lparr>cache := (cache s')(key \<mapsto> \<lparr>data = resp_data response, timestamp = clock s'\<rparr>)\<rparr>
                else s')))"

section \<open>Read operations\<close>

text \<open>Line 316: \<^verbatim>\<open>this.cache.clear()\<close>.\<close>

definition clearCache :: "mantis \<Rightarrow> mantis" where
  "clearCache s = s\<lparr>cache := Map.empty\<rparr>"

text \<open>One line \<^verbatim>\<open>if (params.x) filter += `prefix${render(params.x)}`\<close> of
  \<^verbatim>\<open>getIssues\<close>.\<close>

definition filterPart :: "jsval \<Rightarrow> string \<Rightarrow> (jsval \<Rightarrow> string) \<Rightarrow> string" where
  "filterPart v prefix render = (if truthy v then prefix @ render v else [])"

text \<open>\<^verbatim>\<open>v?.length\<close> (a string's length is read in bytes here; only whether it is zero
  matters).\<close>

definition lengthOf :: "jsval \<Rightarrow> jsval" where
  "lengthOf v =
     (case v of
        JArray xs \<Rightarrow> JNumber (Num (int (length xs)))
      | JString str \<Rightarrow> JNumber (Num (int (length str)))
      | JObject kvs \<Rightarrow> getProp v ''length''
      | _ \<Rightarrow> JUndefined)"

text \<open>Line 237: \<^verbatim>\<open>if (params.select?.length) filter += `&select=${params.select.join(',')}`\<close>;
  \<^verbatim>\<open>join\<close> exists on arrays only.\<close>

definition selectPart :: "jsval \<Rightarrow> thrown + string" where
  "selectPart select =
     (if truthy (lengthOf select)
      then (case select of
              JArray xs \<Rightarrow> Inr (''&select='' @ ToString (JArray xs))
            | _ \<Rightarrow> Inl TypeError)
      else Inr [])"

text \<open>Lines 228-239: the filter string, for \<open>params\<close> that is not nullish.\<close>

definition issuesFilter :: "jsval \<Rightarrow> thrown + string" where
  "issuesFilter params =
     (case selectPart (getProp params ''select'') of
        Inl e \<Rightarrow> Inl e
      | Inr sel \<Rightarrow>
          Inr (filterPart (getProp params ''projectId'') ''&project_id='' ToString
             @ filterPart (getProp params ''statusId'') ''&status_id='' ToString
             @ filterPart (getProp params ''handlerId'') ''&handler_id='' ToString
             @ filterPart (getProp params ''reporterId'') ''&reporter_id='' ToString
             @ filterPart (getProp params ''priority'') ''&priority='' ToString
             @ filterPart (getProp params ''severity'') ''&severity='' ToString
             @ filterPart (getProp params ''search'') ''&search='' (\<lambda>v. encodeURIComponent (ToString v))
             @ filterPart (getProp params ''filterId'') ''&filter_id='' ToString
             @ sel
             @ filterPart (getProp params ''sort'') ''&sort='' (\<lambda>v. encodeURIComponent (ToString v))
             @ filterPart (getProp params ''dir'') ''&dir='' (\<lambda>v. encodeURIComponent (ToString v))))"

text \<open>Lines 241-247: the cache key and the URL \<^verbatim>\<open>getIssues\<close> derives from its parameter
  (\<^verbatim>\<open>params = {}\<close> when the argument is \<^verbatim>\<open>undefined\<close>; \<^verbatim>\<open>null\<close> fails at the first
  property read).\<close>

definition issuesParams :: "jsval \<Rightarrow> thrown + jsval" where
  "issuesParams arg =
     (let params = (if arg = JUndefined then JObject [] else arg)
      in if nullish params then Inl TypeError else Inr params)"

definition issuesPageSize :: "jsval \<Rightarrow> jsval" where
  "issuesPageSize params = or_js (getProp params ''pageSize'') (JNumber (Num 50))"

definition issuesPage :: "jsval \<Rightarrow> jsval" where
  "issuesPage params = or_js (getProp params ''page'') (JNumber (Num 1))"

definition issuesCacheKey :: "jsval \<Rightarrow> thrown + string" where
  "issuesCacheKey arg =
     (case issuesParams arg of
        Inl e \<Rightarrow> Inl e
      | Inr params \<Rightarrow>
          (case issuesFilter params of
             Inl e \<Rightarrow> Inl e
           | Inr filterStr \<Rightarrow>
               Inr (''issues-'' @ filterStr @ ''-'' @ ToString (issuesPage params)
                      @ ''-'' @ ToString (issuesPageSize params))))"

definition issuesUrl :: "jsval \<Rightarrow> thrown + string" where
  "issuesUrl arg =
     (case issuesParams arg of
        Inl e \<Rightarrow> Inl e
      | Inr params \<Rightarrow>
          (case issuesFilter params of
             Inl e \<Rightarrow> Inl e
           | Inr filterStr \<Rightarrow>
               Inr (''/issues?page='' @ ToString (issuesPage params)
                      @ ''&page_size='' @ ToString (issuesPageSize params) @ filterStr)))"

text \<open>\<^verbatim>\<open>response.k\<close> on a response body that may be nullish.\<close>

definition readProp :: "jsval \<Rightarrow> string \<Rightarrow> thrown + jsval" where
  "readProp v k = (if nullish v then Inl TypeError else Inr (getProp v k))"

text \<open>Lines 224-251.\<close>

definition getIssues :: "config \<Rightarrow> server \<Rightarrow> jsval \<Rightarrow> mantis \<Rightarrow> (thrown + jsval) \<times> mantis" where
  "getIssues cfg srv arg s =
     (case (issuesCacheKey arg, issuesUrl arg) of
        (Inr cacheKey, Inr url) \<Rightarrow>
          (case cachedRequest cfg cacheKey (api srv (Get url)) s of
             (Inl e, s') \<Rightarrow> (Inl e, s')
           | (Inr response, s') \<Rightarrow> (readProp response ''issues'', s'))
      | (Inl e, _) \<Rightarrow> (Inl e, s)
      | (_, Inl e) \<Rightarrow> (Inl e, s))"

text \<open>\<^verbatim>\<open>v[0]\<close> on a value that is not nullish.\<close>

fun index0 :: "jsval \<Rightarrow> jsval" where
  "index0 (JArray (x # xs)) = x"
| "index0 (JString (c # cs)) = JString [c]"
| "index0 (JObject kvs) = getProp (JObject kvs) ''0''"
| "index0 v = JUndefined"

text \<open>Line 262: \<^verbatim>\<open>response.issues[0]\<close>.\<close>

definition firstIssue :: "jsval \<Rightarrow> thrown + jsval" where
  "firstIssue response =
     (case readProp response ''issues'' of
        Inl e \<Rightarrow> Inl e
      | Inr issues \<Rightarrow> if nullish issues then Inl TypeError else Inr (index0 issues))"

text \<open>Lines 254-263.\<close>

definition getIssueById :: "config \<Rightarrow> server \<Rightarrow> jsval \<Rightarrow> mantis \<Rightarrow> (thrown + jsval) \<times> mantis" where
  "getIssueById cfg srv issueId s =
     (case cachedRequest cfg (''issue-'' @ ToString issueId)
             (api srv (Get (''/issues/'' @ ToString issueId))) s of
        (Inl e, s') \<Rightarrow> (Inl e, s')
      | (Inr response, s') \<Rightarrow> (firstIssue response, s'))"

text \<open>Lines 266-274.\<close>

definition getCurrentUser :: "config \<Rightarrow> server \<Rightarrow> mantis \<Rightarrow> (thrown + jsval) \<times> mantis" where
  "getCurrentUser cfg srv s = cachedRequest cfg ''current-user'' (api srv (Get ''/users/me'')) s"

text \<open>Lines 277-289.\<close>

definition getUser :: "config \<Rightarrow> server \<Rightarrow> jsval \<Rightarrow> mantis \<Rightarrow> (thrown + jsval) \<times> mantis" where
  "getUser cfg srv userId s =
     (if \<not> truthy userId
      then (Inl (MantisApiError ''User ID is required'' None JUndefined), s)
      else cachedRequest cfg (''user-'' @ ToString userId)
             (api srv (Get (''/users/'' @ ToString userId))) s)"

text \<open>Lines 292-300.\<close>

definition getProjects :: "config \<Rightarrow> server \<Rightarrow> mantis \<Rightarrow> (thrown + jsval) \<times> mantis" where
  "getProjects cfg srv s = cachedRequest cfg ''projects'' (api srv (Get ''/projects'')) s"

text \<open>Lines 303-311.\<close>

definition getUsersByProjectId ::
  "config \<Rightarrow> server \<Rightarrow> jsval \<Rightarrow> mantis \<Rightarrow> (thrown + jsval) \<times> mantis" where
  "getUsersByProjectId cfg srv projectId s =
     cachedRequest cfg (''users-by-project-'' @ ToString projectId)
       (api srv (Get (''/projects/'' @ ToString projectId @ ''/users''))) s"

text \<open>Lines 120-128: the \<^verbatim>\<open>catch\<close> of \<^verbatim>\<open>getUserByUsername\<close>.\<close>

fun userErrorWrap :: "thrown \<Rightarrow> thrown" where
  "userErrorWrap (MantisApiError m c r) = MantisApiError m c r"
| "userErrorWrap (JsError m) = MantisApiError (''Failed to get user info: '' @ m) None JUndefined"
| "userErrorWrap (NonError v) = MantisApiError ''Failed to get user info'' None JUndefined"

text \<open>Lines 102-129. The function reads no configuration.\<close>

definition getUserByUsername :: "server \<Rightarrow> string \<Rightarrow> mantis \<Rightarrow> (thrown + jsval) \<times> mantis" where
  "getUserByUsername srv username s =
     (let cacheKey = ''user_'' @ username
      in case (case cache s cacheKey of
                 Some cached \<Rightarrow>
                   if clock s - timestamp cached < 300000 then Some (data cached) else None
               | None \<Rightarrow> None) of
           Some d \<Rightarrow> (Inr d, s)
         | None \<Rightarrow>
             (case api srv (Get (''/users/username/'' @ encodeURIComponent username)) s of
                (Inr response, s') \<Rightarrow>
                  (Inr (resp_data response),
                   s'\<lparr>cache := (cache s')(cacheKey \<mapsto>
                                 \<lparr>data = resp_data response, timestamp = clock s'\<rparr>)\<rparr>)
              | (Inl error, s') \<Rightarrow> (Inl (userErrorWrap error), s')))"

section \<open>Mutating operations\<close>

text \<open>Lines 320-325.\<close>

definition createIssue :: "server \<Rightarrow> jsval \<Rightarrow> mantis \<Rightarrow> (thrown + jsval) \<times> mantis" where
  "createIssue srv issueData s =
     (case api srv (Post ''/issues'' issueData) s of
        (Inl error, s') \<Rightarrow> (Inl error, s')
      | (Inr response, s') \<Rightarrow> (readProp (resp_data response) ''issue'', clearCache s'))"

text \<open>Lines 531-536.\<close>

definition addIssueNote :: "server \<Rightarrow> jsval \<Rightarrow> jsval \<Rightarrow> mantis \<Rightarrow> (thrown + jsval) \<times> mantis" where
  "addIssueNote srv issueId noteData s =
     (case api srv (Post (''/issues/'' @ ToString issueId @ ''/notes'') noteData) s of
        (Inl error, s') \<Rightarrow> (Inl error, s')
      | (Inr response, s') \<Rightarrow> (Inr (resp_data response), clearCache s'))"

text \<open>Lines 328-342. \<^verbatim>\<open>response.data?.issue\<close> is \<open>getProp\<close>; the \<^verbatim>\<open>catch\<close> swallows the
  error of the PATCH.\<close>

definition updateIssue ::
  "config \<Rightarrow> server \<Rightarrow> jsval \<Rightarrow> jsval \<Rightarrow> mantis \<Rightarrow> (thrown + jsval) \<times> mantis" where
  "updateIssue cfg srv issueId updateData s =
     (case api srv (Patch (''/issues/'' @ ToString issueId) updateData) s of
        (Inr response, s') \<Rightarrow>
          if truthy (getProp (resp_data response) ''issue'')
          then (Inr (getProp (resp_data response) ''issue''), clearCache s')
          else getIssueById cfg srv issueId (clearCache s')
      | (Inl error, s') \<Rightarrow> getIssueById cfg srv issueId (clearCache s'))"

text \<open>Lines 350-353: the body of the status PATCH.\<close>

definition statusUpdateData :: "jsval \<Rightarrow> jsval \<Rightarrow> jsval" where
  "statusUpdateData status resolution =
     JObject ([(''status'', JObject [(''name'', status)])]
              @ (if truthy resolution then [(''resolution'', JObject [(''name'', resolution)])]
                 else []))"

text \<open>Lines 345-366.\<close>

definition changeIssueStatus ::
  "config \<Rightarrow> server \<Rightarrow> jsval \<Rightarrow> jsval \<Rightarrow> jsval \<Rightarrow> jsval \<Rightarrow> mantis
     \<Rightarrow> (thrown + jsval) \<times> mantis" where
  "changeIssueStatus cfg srv issueId status resolution note s =
     (case (if truthy note
            then addIssueNote srv issueId
                   (JObject [(''text'', note), (''view_state'', JObject [(''name'', JString ''public'')])]) s
            else (Inr JUndefined, s)) of
        (Inl error, s0) \<Rightarrow> (Inl error, s0)
      | (Inr noted, s0) \<Rightarrow>
          (case api srv (Patch (''/issues/'' @ ToString issueId)
                           (statusUpdateData status resolution)) s0 of
             (Inr response, s') \<Rightarrow>
               if truthy (getProp (resp_data response) ''issue'')
               then (Inr (getProp (resp_data response) ''issue''), clearCache s')
               else getIssueById cfg srv issueId (clearCache s')
           | (Inl error, s') \<Rightarrow> getIssueById cfg srv issueId (clearCache s')))"

section \<open>The SOAP search: response handling and issue mapping\<close>

datatype named_ref = NamedRef (ref_id: jsnum) (ref_name: jsval)

datatype person = Person (person_id: jsnum) (person_name: jsval) (person_email: jsval)

datatype custom_field = CustomField (cf_field: named_ref) (cf_value: jsval)

text \<open>The object literal \<^verbatim>\<open>mapSoapIssue\<close> returns; a property whose value is \<^verbatim>\<open>undefined\<close>
  is \<open>None\<close>.\<close>

record Issue =
  issue_id :: jsnum
  summary :: jsval
  description :: jsval
  status :: named_ref
  project :: named_ref
  category :: named_ref
  reporter :: person
  handler :: "person option"
  priority :: "named_ref option"
  severity :: "named_ref option"
  custom_fields :: "custom_field list option"
  created_at :: jsval
  updated_at :: jsval

text \<open>\<^verbatim>\<open>{ id: Number(v?.id) || 0, name: v?.name || '' }\<close>\<close>

definition mapRef :: "(string \<Rightarrow> jsnum) \<Rightarrow> jsval \<Rightarrow> thrown + named_ref" where
  "mapRef s2n v =
     bindT (NumberOr0 s2n (getProp v ''id''))
       (\<lambda>n. Inr (NamedRef n (or_js (getProp v ''name'') (JString []))))"

text \<open>\<^verbatim>\<open>{ id: Number(v?.id) || 0, name: v?.name || '', email: v?.email || '' }\<close>\<close>

definition mapPerson :: "(string \<Rightarrow> jsnum) \<Rightarrow> jsval \<Rightarrow> thrown + person" where
  "mapPerson s2n v =
     bindT (NumberOr0 s2n (getProp v ''id''))
       (\<lambda>n. Inr (Person n (or_js (getProp v ''name'') (JString []))
                          (or_js (getProp v ''email'') (JString []))))"

text \<open>\<^verbatim>\<open>v ? f(v) : undefined\<close>\<close>

definition mapOptional :: "(jsval \<Rightarrow> thrown + 'a) \<Rightarrow> jsval \<Rightarrow> thrown + 'a option" where
  "mapOptional f v = (if truthy v then bindT (f v) (\<lambda>x. Inr (Some x)) else Inr None)"

text \<open>Lines 521-524, the arrow function applied to each custom field: \<^verbatim>\<open>cf.field\<close> is read
  on \<^verbatim>\<open>cf\<close> itself.\<close>

definition mapCustomField :: "(string \<Rightarrow> jsnum) \<Rightarrow> jsval \<Rightarrow> thrown + custom_field" where
  "mapCustomField s2n cf =
     (if nullish cf then Inl TypeError
      else bindT (mapRef s2n (getProp cf ''field''))
             (\<lambda>fld. Inr (CustomField fld (or_js (getProp cf ''value'') (JString [])))))"

text \<open>\<^verbatim>\<open>Array.isArray(v) ? v : [v]\<close>\<close>

definition toArray :: "jsval \<Rightarrow> jsval list" where
  "toArray v = (case v of JArray xs \<Rightarrow> xs | _ \<Rightarrow> [v])"

text \<open>\<^verbatim>\<open>xs.map(f)\<close> for an \<open>f\<close> that may throw: the first throw ends the loop.\<close>

fun mapThrowing :: "('a \<Rightarrow> thrown + 'b) \<Rightarrow> 'a list \<Rightarrow> thrown + 'b list" where
  "mapThrowing f [] = Inr []"
| "mapThrowing f (x # xs) =
     (case f x of
        Inl e \<Rightarrow> Inl e
      | Inr y \<Rightarrow> (case mapThrowing f xs of Inl e \<Rightarrow> Inl e | Inr ys \<Rightarrow> Inr (y # ys)))"

text \<open>Lines 486-528: the properties of the object literal are evaluated in the order
  written, and the first conversion that raises ends the mapping.\<close>

definition mapSoapIssue :: "(string \<Rightarrow> jsnum) \<Rightarrow> jsval \<Rightarrow> thrown + Issue" where
  "mapSoapIssue s2n item =
     (if nullish item then Inl TypeError
      else
        bindT (NumberOr0 s2n (getProp item ''id'')) (\<lambda>iid.
        bindT (mapRef s2n (getProp item ''status'')) (\<lambda>st.
        bindT (mapRef s2n (getProp item ''project'')) (\<lambda>prj.
        bindT (mapPerson s2n (getProp item ''reporter'')) (\<lambda>rep.
        bindT (mapOptional (mapPerson s2n) (getProp item ''handler'')) (\<lambda>hnd.
        bindT (mapOptional (mapRef s2n) (getProp item ''priority'')) (\<lambda>prio.
        bindT (mapOptional (mapRef s2n) (getProp item ''severity'')) (\<lambda>sev.
        bindT (mapOptional (\<lambda>cfs. mapThrowing (mapCustomField s2n) (toArray cfs))
                 (getProp item ''custom_fields'')) (\<lambda>cfs.
          Inr \<lparr> issue_id = iid,
                summary = or_js (getProp item ''summary'') (JString []),
                description = or_js (getProp item ''description'') (JString []),
                status = st,
                project = prj,
                category = NamedRef (Num 0) (or_js (getProp item ''category'') (JString [])),
                reporter = rep,
                handler = hnd,
                priority = prio,
                severity = sev,
                custom_fields = cfs,
                created_at = or_js (getProp item ''date_submitted'') (JString []),
                updated_at = or_js (getProp item ''last_updated'') (JString []) \<rparr>)))))))))"








text \<open>What \<^verbatim>\<open>XMLParser.parse\<close> builds holds no \<^verbatim>\<open>null\<close> and no \<^verbatim>\<open>undefined\<close>: a wire value.\<close>

fun wire :: "jsval \<Rightarrow> bool" where
  "wire JUndefined = False"
| "wire JNull = False"
| "wire (JArray xs) = list_all wire xs"
| "wire (JObject kvs) = list_all (\<lambda>kv. wire (snd kv)) kvs"
| "wire v = True"

text \<open>
  The values \<^verbatim>\<open>mapSoapIssue\<close> hands to \<^verbatim>\<open>Number\<close>: the id of the item, of its status,
  project and reporter, of a present handler, priority and severity, and of the field
  of each present custom field. \<open>numbersConvert\<close> says that none of these conversions
  raises.
\<close>

definition numbersConvert :: "jsval \<Rightarrow> bool" where
  "numbersConvert item \<longleftrightarrow>
     \<not> ownToString (getProp item ''id'')
     \<and> \<not> ownToString (getProp (getProp item ''status'') ''id'')
     \<and> \<not> ownToString (getProp (getProp item ''project'') ''id'')
     \<and> \<not> ownToString (getProp (getProp item ''reporter'') ''id'')
     \<and> \<not> (truthy (getProp item ''handler'')
            \<and> ownToString (getProp (getProp item ''handler'') ''id''))
     \<and> \<not> (truthy (getProp item ''priority'')
            \<and> ownToString (getProp (getProp item ''priority'') ''id''))
     \<and> \<not> (truthy (getProp item ''severity'')
            \<and> ownToString (getProp (getProp item ''severity'') ''id''))
     \<and> \<not> (truthy (getProp item ''custom_fields'')
            \<and> list_ex (\<lambda>cf. ownToString (getProp (getProp cf ''field'') ''id''))
                  (toArray (getProp item ''custom_fields'')))"

subsection \<open>The mapping in the words of the specification\<close>

text \<open>
  Section 4.2 of the specification: each wire item is mapped "with numeric coercion
  (\<^verbatim>\<open>Number(...) || 0\<close> semantics: non-numeric or missing becomes 0)" and optional
  sub-objects that are absent on the wire are "entirely absent rather than
  zero-filled". \<open>coerceOrZero\<close> is that coercion on the number a wire value converts
  to; \<open>specIssue\<close> is the issue these words describe, to be compared with what
  \<^verbatim>\<open>mapSoapIssue\<close> computes.
\<close>

fun coerceOrZero :: "jsnum \<Rightarrow> jsnum" where
  "coerceOrZero NaN = Num 0"
| "coerceOrZero (Num n) = Num n"

definition specRef :: "(string \<Rightarrow> jsnum) \<Rightarrow> jsval \<Rightarrow> named_ref" where
  "specRef s2n v =
     NamedRef (coerceOrZero (ToNumber s2n (getProp v ''id''))) (or_js (getProp v ''name'') (JString []))"

definition specPerson :: "(string \<Rightarrow> jsnum) \<Rightarrow> jsval \<Rightarrow> person" where
  "specPerson s2n v =
     Person (coerceOrZero (ToNumber s2n (getProp v ''id''))) (or_js (getProp v ''name'') (JString []))
            (or_js (getProp v ''email'') (JString []))"

definition specCustomField :: "(string \<Rightarrow> jsnum) \<Rightarrow> jsval \<Rightarrow> custom_field" where
  "specCustomField s2n cf =
     CustomField (specRef s2n (getProp cf ''field'')) (or_js (getProp cf ''value'') (JString []))"

definition specIssue :: "(string \<Rightarrow> jsnum) \<Rightarrow> jsval \<Rightarrow> Issue" where
  "specIssue s2n item =
     \<lparr> issue_id = coerceOrZero (ToNumber s2n (getProp item ''id'')),
       summary = or_js (getProp item ''summary'') (JString []),
       description = or_js (getProp item ''description'') (JString []),
       status = specRef s2n (getProp item ''status''),
       project = specRef s2n (getProp item ''project''),
       category = NamedRef (Num 0) (or_js (getProp item ''category'') (JString [])),
       reporter = specPerson s2n (getProp item ''reporter''),
       handler = (if truthy (getProp item ''handler'')
                  then Some (specPerson s2n (getProp item ''handler'')) else None),
       priority = (if truthy (getProp item ''priority'')
                   then Some (specRef s2n (getProp item ''priority'')) else None),
       severity = (if truthy (getProp item ''severity'')
                   then Some (specRef s2n (getProp item ''severity'')) else None),
       custom_fields = (if truthy (getProp item ''custom_fields'')
                        then Some (map (specCustomField s2n) (toArray (getProp item ''custom_fields'')))
                        else None),
       created_at = or_js (getProp item ''date_submitted'') (JString []),
       updated_at = or_js (getProp item ''last_updated'') (JString []) \<rparr>"

section \<open>The gateway as a state machine\<close>

text \<open>The public operations that read or write the gateway's state, as calls.\<close>

datatype operation =
    GetIssues jsval
  | GetIssueById jsval
  | GetCurrentUser
  | GetUser jsval
  | GetProjects
  | GetUsersByProjectId jsval
  | GetUserByUsername string
  | ClearCache
  | CreateIssue jsval
  | UpdateIssue jsval jsval
  | ChangeIssueStatus jsval jsval jsval jsval
  | AddIssueNote jsval jsval

fun perform :: "config \<Rightarrow> server \<Rightarrow> operation \<Rightarrow> mantis \<Rightarrow> (thrown + jsval) \<times> mantis" where
  "perform cfg srv (GetIssues params) s = getIssues cfg srv params s"
| "perform cfg srv (GetIssueById issueId) s = getIssueById cfg srv issueId s"
| "perform cfg srv GetCurrentUser s = getCurrentUser cfg srv s"
| "perform cfg srv (GetUser userId) s = getUser cfg srv userId s"
| "perform cfg srv GetProjects s = getProjects cfg srv s"
| "perform cfg srv (GetUsersByProjectId projectId) s = getUsersByProjectId cfg srv projectId s"
| "perform cfg srv (GetUserByUsername username) s = getUserByUsername srv username s"
| "perform cfg srv ClearCache s = (Inr JUndefined, clearCache s)"
| "perform cfg srv (CreateIssue issueData) s = createIssue srv issueData s"
| "perform cfg srv (UpdateIssue issueId updateData) s = updateIssue cfg srv issueId updateData s"
| "perform cfg srv (ChangeIssueStatus issueId st resolution note) s =
     changeIssueStatus cfg srv issueId st resolution note s"
| "perform cfg srv (AddIssueNote issueId noteData) s = addIssueNote srv issueId noteData s"

fun isRead :: "operation \<Rightarrow> bool" where
  "isRead (GetIssues params) = True"
| "isRead (GetIssueById issueId) = True"
| "isRead GetCurrentUser = True"
| "isRead (GetUser userId) = True"
| "isRead GetProjects = True"
| "isRead (GetUsersByProjectId projectId) = True"
| "isRead (GetUserByUsername username) = True"
| "isRead other = False"

section \<open>Example inputs\<close>

definition notFoundError :: axios_error where
  "notFoundError =
     \<lparr>err_response = Some (AxiosResponse 404 ''Not Found'' (JString ''no such issue'')),
      err_request = True, err_message = ''Request failed with status code 404''\<rparr>"

definition cachingOn :: config where
  "cachingOn = \<lparr>CACHE_ENABLED = True, CACHE_TTL_SECONDS = 300\<rparr>"

definition cachingOff :: config where
  "cachingOff = \<lparr>CACHE_ENABLED = False, CACHE_TTL_SECONDS = 300\<rparr>"

definition startState :: mantis where
  "startState = \<lparr>cache = Map.empty, clock = 1000, sent = []\<rparr>"

definition issue7 :: jsval where
  "issue7 = JObject [(''id'', JNumber (Num 7)), (''summary'', JString ''Crash on save'')]"

text \<open>A tracker that answers every GET with issue 7 in a list envelope, every POST with
  the created issue, and every PATCH without echoing the issue, each after 5 ms.\<close>

definition quietServer :: server where
  "quietServer history rq =
     (case rq of
        Get url \<Rightarrow> (Inr (AxiosResponse 200 ''OK'' (JObject [(''issues'', JArray [issue7])])), 5)
      | Post url body \<Rightarrow> (Inr (AxiosResponse 201 ''Created'' (JObject [(''issue'', issue7)])), 5)
      | Patch url body \<Rightarrow> (Inr (AxiosResponse 200 ''OK'' (JObject [])), 5))"

definition serverError :: axios_error where
  "serverError =
     \<lparr>err_response = Some (AxiosResponse 500 ''Internal Server Error'' JNull),
      err_request = True, err_message = ''Request failed with status code 500''\<rparr>"

text \<open>A tracker that answers GET as above and rejects every POST and PATCH with status
  500.\<close>

definition rejectingServer :: server where
  "rejectingServer history rq =
     (case rq of
        Get url \<Rightarrow> (Inr (AxiosResponse 200 ''OK'' (JObject [(''issues'', JArray [issue7])])), 5)
      | Post url body \<Rightarrow> (Inl serverError, 5)
      | Patch url body \<Rightarrow> (Inl serverError, 5))"

text \<open>A state whose cache holds an entry fetched before.\<close>

definition warmState :: mantis where
  "warmState = \<lparr>cache = [''projects'' \<mapsto> \<lparr>data = JArray [], timestamp = 900\<rparr>],
                 clock = 1000, sent = []\<rparr>"

text \<open>A tracker that answers every request with the user \<open>alice\<close>, and the state after
  she was looked up by name at time 1000.\<close>

definition alice :: jsval where
  "alice = JObject [(''id'', JNumber (Num 5)), (''name'', JString ''alice'')]"

definition userServer :: server where
  "userServer history rq = (Inr (AxiosResponse 200 ''OK'' alice), 5)"

definition aliceCached :: mantis where
  "aliceCached = \<lparr>cache = [''user_alice'' \<mapsto> \<lparr>data = alice, timestamp = 1005\<rparr>],
                   clock = 1005, sent = [Get ''/users/username/alice'']\<rparr>"

text \<open>
  An example conversion for \<^verbatim>\<open>StringToNumber\<close>: the empty string is 0 and a string of decimal
  digits is its value, as in the runtime; every other string, among them the strings
  with letters used below, is taken as not numeric (the runtime accepts more literals:
  signs, fractions, exponents, other radices, \<^verbatim>\<open>Infinity\<close>, surrounding white space).
\<close>

fun decimalValue :: "string \<Rightarrow> nat \<Rightarrow> jsnum" where
  "decimalValue [] acc = Num (int acc)"
| "decimalValue (c # cs) acc =
     (if c \<in> set ''0123456789'' then decimalValue cs (10 * acc + (of_char c - 48)) else NaN)"

definition decimalStringToNumber :: "string \<Rightarrow> jsnum" where
  "decimalStringToNumber str = decimalValue str 0"

text \<open>A parsed search result with a non-numeric id and without handler, priority,
  severity and custom fields; parsed SOAP envelopes with a fault, with neither node and
  with a single result; a parser that yields a given value.\<close>

definition wireItem :: jsval where
  "wireItem =
     JObject [(''id'', JString ''abc''), (''summary'', JString ''Crash on save''),
              (''status'', JObject [(''id'', JNumber (Num 10)), (''name'', JString ''new'')]),
              (''reporter'', JObject [(''id'', JString ''12''), (''name'', JString ''bob'')])]"







text \<open>The state after the issues of project 3 were listed, page 1 of size 2, at time
  1000.\<close>

definition issuesCached :: mantis where
  "issuesCached =
     \<lparr>cache = [''issues-&project_id=3-1-2'' \<mapsto>
                 \<lparr>data = JObject [(''issues'', JArray [issue7])], timestamp = 1005\<rparr>],
      clock = 1005, sent = [Get ''/issues?page=1&page_size=2&project_id=3'']\<rparr>"

text \<open>The state after an \<^verbatim>\<open>updateIssue\<close> of issue 7 on \<open>warmState\<close> that re-fetched the issue.\<close>

definition refetchedState :: mantis where
  "refetchedState =
     \<lparr>cache = [''issue-7'' \<mapsto>
                 \<lparr>data = JObject [(''issues'', JArray [issue7])], timestamp = 1010\<rparr>],
      clock = 1010,
      sent = [Patch ''/issues/7'' (JObject [(''summary'', JString ''Fixed'')]), Get ''/issues/7'']\<rparr>"

text \<open>A parsed search result whose single custom field has a non-numeric field id; a
  parsed fault whose \<^verbatim>\<open>faultstring\<close> element carries an attribute, which the parser
  (\<^verbatim>\<open>ignoreAttributes: false\<close>) turns into an object; a parsed envelope whose
  \<^verbatim>\<open>Fault\<close> element is empty, which the parser reads as the empty string; a parsed result
  whose id element has a child element named \<^verbatim>\<open>toString\<close>.\<close>

definition wireItemWithField :: jsval where
  "wireItemWithField =
     JObject [(''id'', JNumber (Num 7)),
              (''custom_fields'',
               JObject [(''field'', JObject [(''id'', JString ''x9''), (''name'', JString ''Build'')]),
                        (''value'', JString ''42'')])]"



definition toStringIdItem :: jsval where
  "toStringIdItem = JObject [(''id'', JObject [(''toString'', JString ''x'')])]"


section \<open>Properties\<close>

declare digits.simps [simp del]

subsection \<open>The response interceptor\<close>

lemma api_error_typed: "api srv rq s = (Inl e, s') \<Longrightarrow> isMantisApiError e"
  by (auto simp: api_def responseInterceptor_def split: prod.splits sum.splits option.splits if_splits)

text \<open>
  Claim C2. Every error that a call through the HTTP client raises is a
  \<^verbatim>\<open>MantisApiError\<close>, and its \<^verbatim>\<open>statusCode\<close> tells the three failure kinds apart: an
  answer with an error status gives that status (positive, as HTTP statuses are) and
  carries the raw response body, a request without answer gives 0, a request that
  could not be built gives \<^verbatim>\<open>undefined\<close>.
\<close>

theorem responseInterceptor_failure_kinds:
  assumes "\<forall>r. err_response error = Some r \<longrightarrow> 0 < resp_status r"
  shows "(\<forall>srv rq s e s'. api srv rq s = (Inl e, s') \<longrightarrow> isMantisApiError e)
       \<and> (\<exists>m c body. responseInterceptor (Inl error) = Inl (MantisApiError m c body)
           \<and> kindOfStatusCode c = kindOfAxiosError error
           \<and> (\<forall>r. err_response error = Some r \<longrightarrow> c = Some (resp_status r) \<and> body = resp_data r)
           \<and> (err_response error = None \<and> err_request error \<longrightarrow> c = Some 0)
           \<and> (err_response error = None \<and> \<not> err_request error \<longrightarrow> c = None))"
proof
  show "\<forall>srv rq s e s'. api srv rq s = (Inl e, s') \<longrightarrow> isMantisApiError e"
    by (blast intro: api_error_typed)
next
  show "\<exists>m c body. responseInterceptor (Inl error) = Inl (MantisApiError m c body)
           \<and> kindOfStatusCode c = kindOfAxiosError error
           \<and> (\<forall>r. err_response error = Some r \<longrightarrow> c = Some (resp_status r) \<and> body = resp_data r)
           \<and> (err_response error = None \<and> err_request error \<longrightarrow> c = Some 0)
           \<and> (err_response error = None \<and> \<not> err_request error \<longrightarrow> c = None)"
    using assms
    by (cases "err_response error")
       (auto simp: responseInterceptor_def kindOfStatusCode_def kindOfAxiosError_def)
qed

theorem responseInterceptor_failure_kinds_witness:
  "\<exists>m. responseInterceptor (Inl notFoundError)
         = Inl (MantisApiError m (Some 404) (JString ''no such issue''))
       \<and> kindOfStatusCode (Some 404) = HttpStatusError"
  using responseInterceptor_failure_kinds [of notFoundError]
  by (auto simp: notFoundError_def kindOfAxiosError_def)

subsection \<open>Parameter validation of \<^verbatim>\<open>getUser\<close>\<close>

text \<open>
  Claim C9. For a falsy id, zero and \<^verbatim>\<open>undefined\<close> among them, \<^verbatim>\<open>getUser\<close> raises the
  \<^verbatim>\<open>MantisApiError\<close> without status code at once: the state it leaves is the state it
  found, so no request was sent and the cache was not touched.
\<close>

theorem getUser_rejects_falsy_id:
  "getUser cfg srv (JNumber (Num 0)) s
     = (Inl (MantisApiError ''User ID is required'' None JUndefined), s)
   \<and> getUser cfg srv JUndefined s
     = (Inl (MantisApiError ''User ID is required'' None JUndefined), s)
   \<and> (\<not> truthy userId \<longrightarrow>
        getUser cfg srv userId s
          = (Inl (MantisApiError ''User ID is required'' None JUndefined), s))"
  by (simp add: getUser_def)

theorem getUser_rejects_falsy_id_witness:
  "\<not> truthy (JNumber (Num 0))
   \<and> getUser cachingOn quietServer (JNumber (Num 0)) startState
       = (Inl (MantisApiError ''User ID is required'' None JUndefined), startState)
   \<and> sent (snd (getUser cachingOn quietServer (JNumber (Num 0)) startState)) = []"
  using getUser_rejects_falsy_id [of cachingOn quietServer startState "JNumber (Num 0)"]
  by (simp add: startState_def)

subsection \<open>The read-through cache\<close>

lemma cachedRequest_hit:
  "CACHE_ENABLED cfg \<Longrightarrow> cache s key = Some entry
   \<Longrightarrow> clock s - timestamp entry < CACHE_TTL_SECONDS cfg * 1000
   \<Longrightarrow> cachedRequest cfg key requestFn s = (Inr (data entry), s)"
  by (simp add: cachedRequest_def)

lemma cachedRequest_miss:
  "\<not> (CACHE_ENABLED cfg \<and>
     (\<exists>entry. cache s key = Some entry \<and> clock s - timestamp entry < CACHE_TTL_SECONDS cfg * 1000))
   \<Longrightarrow> cachedRequest cfg key requestFn s =
        (case requestFn s of
           (Inl e, s') \<Rightarrow> (Inl e, s')
         | (Inr response, s') \<Rightarrow>
             (Inr (resp_data response),
              if CACHE_ENABLED cfg
              then s'\<lparr>cache := (cache s')(key \<mapsto> \<lparr>data = resp_data response, timestamp = clock s'\<rparr>)\<rparr>
              else s'))"
  by (auto simp: cachedRequest_def split: option.splits)

lemma cachedRequest_stores:
  assumes "CACHE_ENABLED cfg" "cachedRequest cfg key requestFn s = (Inr v, s')"
  shows "\<exists>entry. cache s' key = Some entry \<and> data entry = v"
  using assms
  by (auto simp: cachedRequest_def split: option.splits if_splits prod.splits sum.splits)

text \<open>
  Claim C1, as amended. If caching is enabled and the key has an entry younger than
  \<^verbatim>\<open>CACHE_TTL_SECONDS * 1000\<close> ms, \<^verbatim>\<open>cachedRequest\<close> returns the stored value and leaves
  the state as it was, whatever the producer is: the producer is not invoked.
  Otherwise it invokes the producer; a result of the producer is returned, and it is
  stored under the key with the time read after the producer returned only when
  caching is enabled (with caching disabled nothing is stored); an error of the
  producer propagates. After a call that returned a value with caching enabled, a
  second call with the same key before the entry's TTL has elapsed returns the same
  value without invoking its producer.
\<close>

theorem cachedRequest_read_through:
  "(CACHE_ENABLED cfg \<and> cache s key = Some entry
      \<and> clock s - timestamp entry < CACHE_TTL_SECONDS cfg * 1000
     \<longrightarrow> cachedRequest cfg key requestFn s = (Inr (data entry), s))
 \<and> (\<not> (CACHE_ENABLED cfg \<and>
         (\<exists>entry. cache s key = Some entry
                   \<and> clock s - timestamp entry < CACHE_TTL_SECONDS cfg * 1000))
     \<longrightarrow> (\<forall>response s'. requestFn s = (Inr response, s') \<longrightarrow>
            cachedRequest cfg key requestFn s =
              (Inr (resp_data response),
               if CACHE_ENABLED cfg
               then s'\<lparr>cache := (cache s')(key \<mapsto>
                          \<lparr>data = resp_data response, timestamp = clock s'\<rparr>)\<rparr>
               else s'))
       \<and> (\<forall>e s'. requestFn s = (Inl e, s') \<longrightarrow>
            cachedRequest cfg key requestFn s = (Inl e, s')))
 \<and> (CACHE_ENABLED cfg \<and> cachedRequest cfg key requestFn s = (Inr v, sa)
     \<longrightarrow> (\<exists>entry. cache sa key = Some entry \<and> data entry = v \<and>
           (\<forall>t requestFn'. t - timestamp entry < CACHE_TTL_SECONDS cfg * 1000 \<longrightarrow>
              cachedRequest cfg key requestFn' (sa\<lparr>clock := t\<rparr>) = (Inr v, sa\<lparr>clock := t\<rparr>))))"
proof (intro conjI impI)
  assume "CACHE_ENABLED cfg \<and> cache s key = Some entry
      \<and> clock s - timestamp entry < CACHE_TTL_SECONDS cfg * 1000"
  then show "cachedRequest cfg key requestFn s = (Inr (data entry), s)"
    by (simp add: cachedRequest_hit)
next
  assume miss: "\<not> (CACHE_ENABLED cfg \<and>
         (\<exists>entry. cache s key = Some entry
                   \<and> clock s - timestamp entry < CACHE_TTL_SECONDS cfg * 1000))"
  show "\<forall>response s'. requestFn s = (Inr response, s') \<longrightarrow>
            cachedRequest cfg key requestFn s =
              (Inr (resp_data response),
               if CACHE_ENABLED cfg
               then s'\<lparr>cache := (cache s')(key \<mapsto>
                          \<lparr>data = resp_data response, timestamp = clock s'\<rparr>)\<rparr>
               else s')"
    by (simp add: cachedRequest_miss [OF miss])
  show "\<forall>e s'. requestFn s = (Inl e, s') \<longrightarrow>
            cachedRequest cfg key requestFn s = (Inl e, s')"
    by (simp add: cachedRequest_miss [OF miss])
next
  assume a: "CACHE_ENABLED cfg \<and> cachedRequest cfg key requestFn s = (Inr v, sa)"
  then obtain entry where e: "cache sa key = Some entry" "data entry = v"
    using cachedRequest_stores by blast
  have "\<forall>t requestFn'. t - timestamp entry < CACHE_TTL_SECONDS cfg * 1000 \<longrightarrow>
              cachedRequest cfg key requestFn' (sa\<lparr>clock := t\<rparr>) = (Inr v, sa\<lparr>clock := t\<rparr>)"
    using a e by (simp add: cachedRequest_def)
  with e show "\<exists>entry. cache sa key = Some entry \<and> data entry = v \<and>
           (\<forall>t requestFn'. t - timestamp entry < CACHE_TTL_SECONDS cfg * 1000 \<longrightarrow>
              cachedRequest cfg key requestFn' (sa\<lparr>clock := t\<rparr>) = (Inr v, sa\<lparr>clock := t\<rparr>))"
    by blast
qed

text \<open>A first call that misses and stores at time 1005, and a second call at time 200000,
  inside the 300 s window, that is served from the entry.\<close>

theorem cachedRequest_read_through_witness:
  "cachedRequest cachingOn ''projects'' (api quietServer (Get ''/projects'')) startState
     = (Inr (JObject [(''issues'', JArray [issue7])]),
        \<lparr>cache = [''projects'' \<mapsto> \<lparr>data = JObject [(''issues'', JArray [issue7])], timestamp = 1005\<rparr>],
         clock = 1005, sent = [Get ''/projects'']\<rparr>)
  \<and> cachedRequest cachingOn ''projects'' (api quietServer (Get ''/projects''))
       \<lparr>cache = [''projects'' \<mapsto> \<lparr>data = JObject [(''issues'', JArray [issue7])], timestamp = 1005\<rparr>],
         clock = 200000, sent = [Get ''/projects'']\<rparr>
     = (Inr (JObject [(''issues'', JArray [issue7])]),
        \<lparr>cache = [''projects'' \<mapsto> \<lparr>data = JObject [(''issues'', JArray [issue7])], timestamp = 1005\<rparr>],
         clock = 200000, sent = [Get ''/projects'']\<rparr>)"
  using cachedRequest_read_through [of cachingOn startState "''projects''"
          "\<lparr>data = JNull, timestamp = 0\<rparr>" "api quietServer (Get ''/projects'')"]
    cachedRequest_read_through [of cachingOn
       "\<lparr>cache = [''projects'' \<mapsto> \<lparr>data = JObject [(''issues'', JArray [issue7])], timestamp = 1005\<rparr>],
         clock = 200000, sent = [Get ''/projects'']\<rparr>" "''projects''"
       "\<lparr>data = JObject [(''issues'', JArray [issue7])], timestamp = 1005\<rparr>"
          "api quietServer (Get ''/projects'')"]
  by (simp add: cachingOn_def api_def quietServer_def startState_def responseInterceptor_def)

text \<open>With caching disabled the producer is invoked and its result returned, but nothing
  is stored under the key.\<close>

theorem cachedRequest_disabled_counterexample:
  "fst (cachedRequest cachingOff ''projects'' (api quietServer (Get ''/projects'')) startState)
     = Inr (JObject [(''issues'', JArray [issue7])])
   \<and> sent (snd (cachedRequest cachingOff ''projects'' (api quietServer (Get ''/projects'')) startState))
     = [Get ''/projects'']
   \<and> cache (snd (cachedRequest cachingOff ''projects'' (api quietServer (Get ''/projects'')) startState))
       ''projects'' = None"
  by (simp add: cachedRequest_def cachingOff_def api_def quietServer_def startState_def
        responseInterceptor_def)

subsection \<open>Update with fallback to a re-fetch\<close>

lemma api_state: "api srv rq s = (r, s') \<Longrightarrow> cache s' = cache s \<and> sent s' = sent s @ [rq]"
  by (auto simp: api_def split: prod.splits)

lemma api_fst: "srv (sent s) rq = (outcome, dt) \<Longrightarrow> fst (api srv rq s) = responseInterceptor outcome"
  by (simp add: api_def)

lemma api_sent_snd: "sent (snd (api srv rq s)) = sent s @ [rq]"
  by (simp add: api_def split: prod.splits)

lemma getIssueById_cleared:
  "getIssueById cfg srv issueId (clearCache s) =
     (case api srv (Get (''/issues/'' @ ToString issueId)) (clearCache s) of
        (Inl e, s') \<Rightarrow> (Inl e, s')
      | (Inr response, s') \<Rightarrow>
          (firstIssue (resp_data response),
           if CACHE_ENABLED cfg
           then s'\<lparr>cache := [''issue-'' @ ToString issueId \<mapsto>
                               \<lparr>data = resp_data response, timestamp = clock s'\<rparr>]\<rparr>
           else s'))"
  by (auto simp: getIssueById_def cachedRequest_def clearCache_def
           split: prod.splits sum.splits dest!: api_state)

lemma updateIssue_patch_failed:
  "api srv (Patch (''/issues/'' @ ToString issueId) updateData) s = (Inl e, s1)
   \<Longrightarrow> updateIssue cfg srv issueId updateData s = getIssueById cfg srv issueId (clearCache s1)"
  by (simp add: updateIssue_def)

lemma updateIssue_no_echo:
  "api srv (Patch (''/issues/'' @ ToString issueId) updateData) s = (Inr response, s1)
   \<Longrightarrow> \<not> truthy (getProp (resp_data response) ''issue'')
   \<Longrightarrow> updateIssue cfg srv issueId updateData s = getIssueById cfg srv issueId (clearCache s1)"
  by (simp add: updateIssue_def)

lemma updateIssue_echo:
  "api srv (Patch (''/issues/'' @ ToString issueId) updateData) s = (Inr response, s1)
   \<Longrightarrow> truthy (getProp (resp_data response) ''issue'')
   \<Longrightarrow> updateIssue cfg srv issueId updateData s
        = (Inr (getProp (resp_data response) ''issue''), clearCache s1)"
  by (simp add: updateIssue_def)

lemma changeIssueStatus_as_update:
  "(if truthy noteText
    then addIssueNote srv issueId
           (JObject [(''text'', noteText), (''view_state'', JObject [(''name'', JString ''public'')])]) s
    else (Inr JUndefined, s)) = (Inr noted, s0)
   \<Longrightarrow> changeIssueStatus cfg srv issueId st resolution noteText s
        = updateIssue cfg srv issueId (statusUpdateData st resolution) s0"
  by (simp add: changeIssueStatus_def updateIssue_def split: if_splits)

lemma changeIssueStatus_note_failed:
  "truthy noteText \<Longrightarrow>
   addIssueNote srv issueId
           (JObject [(''text'', noteText), (''view_state'', JObject [(''name'', JString ''public'')])]) s
     = (Inl e, s0)
   \<Longrightarrow> changeIssueStatus cfg srv issueId st resolution noteText s = (Inl e, s0)"
  by (simp add: changeIssueStatus_def)

lemma refetch_cache:
  "getIssueById cfg srv issueId (clearCache s) = (r, s') \<Longrightarrow>
     cache s' = Map.empty \<or>
     (CACHE_ENABLED cfg \<and>
      (\<exists>fetched dt. srv (sent s) (Get (''/issues/'' @ ToString issueId)) = (Inr fetched, dt)
         \<and> cache s' = [''issue-'' @ ToString issueId \<mapsto>
                          \<lparr>data = resp_data fetched, timestamp = clock s'\<rparr>]))"
  unfolding getIssueById_cleared
  by (auto simp: api_def clearCache_def responseInterceptor_def
           split: prod.splits sum.splits if_splits option.splits)

lemma updateIssue_cache:
  "updateIssue cfg srv issueId updateData s = (r, s') \<Longrightarrow>
     cache s' = Map.empty \<or>
     (CACHE_ENABLED cfg \<and>
      (\<exists>fetched dt.
         srv (sent s @ [Patch (''/issues/'' @ ToString issueId) updateData])
             (Get (''/issues/'' @ ToString issueId)) = (Inr fetched, dt)
         \<and> cache s' = [''issue-'' @ ToString issueId \<mapsto>
                          \<lparr>data = resp_data fetched, timestamp = clock s'\<rparr>]))"
proof -
  assume u: "updateIssue cfg srv issueId updateData s = (r, s')"
  obtain pr s1 where p: "api srv (Patch (''/issues/'' @ ToString issueId) updateData) s = (pr, s1)"
    by (cases "api srv (Patch (''/issues/'' @ ToString issueId) updateData) s")
  then have s1: "sent s1 = sent s @ [Patch (''/issues/'' @ ToString issueId) updateData]"
    by (simp add: api_state)
  have "(r, s') = (Inr (getProp (resp_data (projr pr)) ''issue''), clearCache s1)
        \<or> getIssueById cfg srv issueId (clearCache s1) = (r, s')"
    using u p by (cases pr) (auto simp: updateIssue_def split: if_splits)
  then show ?thesis
  proof
    assume "(r, s') = (Inr (getProp (resp_data (projr pr)) ''issue''), clearCache s1)"
    then show ?thesis by (simp add: clearCache_def)
  next
    assume "getIssueById cfg srv issueId (clearCache s1) = (r, s')"
    from refetch_cache [OF this] show ?thesis by (simp add: s1)
  qed
qed


text \<open>
  Claim C5. \<^verbatim>\<open>updateIssue\<close> returns the issue echoed by the PATCH response when there is
  one. When the PATCH fails, or its response holds no issue, it re-fetches the issue by
  id: the cache was just cleared, so a GET is sent to the tracker after the PATCH, and
  the first issue of what the tracker answers is returned. \<^verbatim>\<open>changeIssueStatus\<close>, once its
  optional note is posted, is \<^verbatim>\<open>updateIssue\<close> with the status and resolution as the patch.
\<close>

theorem updateIssue_echo_else_refetch:
  "(api srv (Patch (''/issues/'' @ ToString issueId) updateData) s = (Inr response, sp)
      \<and> truthy (getProp (resp_data response) ''issue'')
     \<longrightarrow> updateIssue cfg srv issueId updateData s
           = (Inr (getProp (resp_data response) ''issue''), clearCache sp))
 \<and> (api srv (Patch (''/issues/'' @ ToString issueId) updateData) s = (patched, sp)
      \<and> (\<forall>response. patched = Inr response \<longrightarrow> \<not> truthy (getProp (resp_data response) ''issue''))
     \<longrightarrow> updateIssue cfg srv issueId updateData s = getIssueById cfg srv issueId (clearCache sp)
       \<and> sent (snd (updateIssue cfg srv issueId updateData s))
           = sent s @ [Patch (''/issues/'' @ ToString issueId) updateData,
                       Get (''/issues/'' @ ToString issueId)]
       \<and> (\<forall>fetched dt.
             srv (sent s @ [Patch (''/issues/'' @ ToString issueId) updateData])
                 (Get (''/issues/'' @ ToString issueId)) = (Inr fetched, dt)
             \<longrightarrow> fst (updateIssue cfg srv issueId updateData s) = firstIssue (resp_data fetched)))
 \<and> ((if truthy noteText
      then addIssueNote srv issueId
             (JObject [(''text'', noteText), (''view_state'', JObject [(''name'', JString ''public'')])]) s
      else (Inr JUndefined, s)) = (Inr noted, sn)
     \<longrightarrow> changeIssueStatus cfg srv issueId st resolution noteText s
           = updateIssue cfg srv issueId (statusUpdateData st resolution) sn)"
proof (intro conjI impI)
  assume "api srv (Patch (''/issues/'' @ ToString issueId) updateData) s = (Inr response, sp)
      \<and> truthy (getProp (resp_data response) ''issue'')"
  then show "updateIssue cfg srv issueId updateData s
           = (Inr (getProp (resp_data response) ''issue''), clearCache sp)"
    by (simp add: updateIssue_echo)
next
  assume a: "api srv (Patch (''/issues/'' @ ToString issueId) updateData) s = (patched, sp)
      \<and> (\<forall>response. patched = Inr response \<longrightarrow> \<not> truthy (getProp (resp_data response) ''issue''))"
  then have sp: "sent sp = sent s @ [Patch (''/issues/'' @ ToString issueId) updateData]"
    by (blast dest: api_state)
  show u: "updateIssue cfg srv issueId updateData s = getIssueById cfg srv issueId (clearCache sp)"
    using a by (cases patched) (simp_all add: updateIssue_patch_failed updateIssue_no_echo)
  show "sent (snd (updateIssue cfg srv issueId updateData s))
           = sent s @ [Patch (''/issues/'' @ ToString issueId) updateData,
                       Get (''/issues/'' @ ToString issueId)]"
    unfolding u getIssueById_cleared
    by (simp add: api_def clearCache_def sp split: prod.splits sum.splits)
  show "\<forall>fetched dt.
             srv (sent s @ [Patch (''/issues/'' @ ToString issueId) updateData])
                 (Get (''/issues/'' @ ToString issueId)) = (Inr fetched, dt)
             \<longrightarrow> fst (updateIssue cfg srv issueId updateData s) = firstIssue (resp_data fetched)"
    unfolding u getIssueById_cleared
    by (simp add: api_def clearCache_def sp responseInterceptor_def)
next
  assume "(if truthy noteText
      then addIssueNote srv issueId
             (JObject [(''text'', noteText), (''view_state'', JObject [(''name'', JString ''public'')])]) s
      else (Inr JUndefined, s)) = (Inr noted, sn)"
  then show "changeIssueStatus cfg srv issueId st resolution noteText s
           = updateIssue cfg srv issueId (statusUpdateData st resolution) sn"
    by (rule changeIssueStatus_as_update)
qed

theorem updateIssue_echo_else_refetch_witness:
  "fst (updateIssue cachingOn quietServer (JNumber (Num 7)) (JObject [(''summary'', JString ''Fixed'')])
          startState) = Inr issue7
   \<and> sent (snd (updateIssue cachingOn quietServer (JNumber (Num 7))
                   (JObject [(''summary'', JString ''Fixed'')]) startState))
       = [Patch ''/issues/7'' (JObject [(''summary'', JString ''Fixed'')]), Get ''/issues/7'']"
  using updateIssue_echo_else_refetch
          [where srv = quietServer and issueId = "JNumber (Num 7)"
             and updateData = "JObject [(''summary'', JString ''Fixed'')]" and s = startState
             and cfg = cachingOn and patched = "Inr (AxiosResponse 200 ''OK'' (JObject []))"
             and sp = "\<lparr>cache = Map.empty, clock = 1005,
                         sent = [Patch ''/issues/7'' (JObject [(''summary'', JString ''Fixed'')])]\<rparr>"]
  by (simp add: api_def quietServer_def startState_def responseInterceptor_def digits.simps
        firstIssue_def readProp_def getIssueById_def cachedRequest_def clearCache_def
        cachingOn_def)

subsection \<open>Mutations and the cache\<close>

lemma createIssue_cache:
  "createIssue srv issueData s = (Inr v, s') \<Longrightarrow> cache s' = Map.empty"
  by (auto simp: createIssue_def clearCache_def split: prod.splits sum.splits)

lemma addIssueNote_cache:
  "addIssueNote srv issueId noteData s = (Inr v, s') \<Longrightarrow> cache s' = Map.empty"
  by (auto simp: addIssueNote_def clearCache_def split: prod.splits sum.splits)

lemma addIssueNote_sent:
  "addIssueNote srv issueId noteData s = (r, s')
   \<Longrightarrow> sent s' = sent s @ [Post (''/issues/'' @ ToString issueId @ ''/notes'') noteData]"
  by (auto simp: addIssueNote_def clearCache_def split: prod.splits sum.splits dest!: api_state)

lemma updateIssue_fallback:
  assumes p: "api srv (Patch (''/issues/'' @ ToString issueId) updateData) s = (patched, s')"
    and ne: "\<forall>response. patched = Inr response \<longrightarrow> \<not> truthy (getProp (resp_data response) ''issue'')"
  shows "updateIssue cfg srv issueId updateData s = getIssueById cfg srv issueId (clearCache s')"
  using p ne by (cases patched) (simp_all add: updateIssue_patch_failed updateIssue_no_echo)

lemma refetch_ok:
  assumes g: "api srv (Get (''/issues/'' @ ToString issueId)) (clearCache s') = (Inr fetched, sf)"
  shows "getIssueById cfg srv issueId (clearCache s')
           = (firstIssue (resp_data fetched),
              if CACHE_ENABLED cfg
              then sf\<lparr>cache := [''issue-'' @ ToString issueId \<mapsto>
                                  \<lparr>data = resp_data fetched, timestamp = clock sf\<rparr>]\<rparr>
              else sf)"
  unfolding getIssueById_cleared using g by simp

lemma refetch_failed:
  assumes g: "api srv (Get (''/issues/'' @ ToString issueId)) (clearCache s') = (Inl e, sf)"
  shows "getIssueById cfg srv issueId (clearCache s') = (Inl e, sf)"
  unfolding getIssueById_cleared using g by simp

lemma api_cleared:
  "api srv rq (clearCache s') = (r, sf) \<Longrightarrow> cache sf = Map.empty"
  by (auto simp: clearCache_def dest!: api_state)

lemma fresh_entry_served:
  assumes "CACHE_ENABLED cfg" and "t - clock sf < CACHE_TTL_SECONDS cfg * 1000"
  shows "getIssueById cfg srv issueId
           (sf\<lparr>cache := [''issue-'' @ ToString issueId \<mapsto>
                             \<lparr>data = body, timestamp = clock sf\<rparr>], clock := t\<rparr>)
         = (firstIssue body,
            sf\<lparr>cache := [''issue-'' @ ToString issueId \<mapsto>
                             \<lparr>data = body, timestamp = clock sf\<rparr>], clock := t\<rparr>)"
  using assms by (simp add: getIssueById_def cachedRequest_def)

lemma updateIssue_other_keys:
  assumes "k \<noteq> ''issue-'' @ ToString issueId"
  shows "cache (snd (updateIssue cfg srv issueId updateData s)) k = None"
proof -
  obtain r s' where u: "updateIssue cfg srv issueId updateData s = (r, s')"
    by (cases "updateIssue cfg srv issueId updateData s")
  from updateIssue_cache [OF u] assms have "cache s' k = None"
    by (elim disjE conjE exE) simp_all
  then show ?thesis by (simp add: u)
qed

lemma cachedRequest_no_entry:
  assumes "cache sx k = None"
  shows "cachedRequest cfg k requestFn sx =
           (case requestFn sx of
              (Inl e, sa) \<Rightarrow> (Inl e, sa)
            | (Inr response, sa) \<Rightarrow>
                (Inr (resp_data response),
                 if CACHE_ENABLED cfg
                 then sa\<lparr>cache := (cache sa)(k \<mapsto> \<lparr>data = resp_data response, timestamp = clock sa\<rparr>)\<rparr>
                 else sa))"
  using assms by (simp add: cachedRequest_def)

lemma createIssue_posted:
  "api srv (Post ''/issues'' issueData) s = (Inr response, s')
   \<Longrightarrow> createIssue srv issueData s = (readProp (resp_data response) ''issue'', clearCache s')"
  by (simp add: createIssue_def)

lemma addIssueNote_posted:
  "api srv (Post (''/issues/'' @ ToString issueId @ ''/notes'') noteData) s = (Inr response, s')
   \<Longrightarrow> addIssueNote srv issueId noteData s = (Inr (resp_data response), clearCache s')"
  by (simp add: addIssueNote_def)

text \<open>
  Claim C3, as amended. No cache entry that existed before a mutation is readable once
  the mutation has completed. After \<^verbatim>\<open>createIssue\<close> or \<^verbatim>\<open>addIssueNote\<close> whose POST succeeded
  the cache is empty. After \<^verbatim>\<open>updateIssue\<close> the cache is empty when the PATCH echoed the
  issue; on the fallback path (the PATCH failed or echoed nothing) it is empty when the
  re-fetch failed or caching is disabled, and when the re-fetch succeeded with caching
  enabled it holds exactly one entry: under \<^verbatim>\<open>issue-<id>\<close>, the response fetched after
  the PATCH, with the time of that fetch. A following \<^verbatim>\<open>getIssueById\<close> of that issue,
  made while this entry is younger than \<^verbatim>\<open>CACHE_TTL_SECONDS\<close>, is served from it without
  a request; under every other key there is no entry, and a read that finds no entry
  invokes its producer. \<^verbatim>\<open>changeIssueStatus\<close>, once its optional note is posted, is
  \<^verbatim>\<open>updateIssue\<close> with the status and resolution as the patch.
\<close>

theorem mutations_drop_prior_entries:
  "(api srv (Post ''/issues'' issueData) s = (Inr response, s') \<longrightarrow>
      createIssue srv issueData s = (readProp (resp_data response) ''issue'', clearCache s')
      \<and> cache (clearCache s') = Map.empty)
 \<and> (api srv (Post (''/issues/'' @ ToString issueId @ ''/notes'') noteData) s = (Inr response, s') \<longrightarrow>
      addIssueNote srv issueId noteData s = (Inr (resp_data response), clearCache s')
      \<and> cache (clearCache s') = Map.empty)
 \<and> (api srv (Patch (''/issues/'' @ ToString issueId) updateData) s = (Inr response, s')
      \<and> truthy (getProp (resp_data response) ''issue'') \<longrightarrow>
      updateIssue cfg srv issueId updateData s
        = (Inr (getProp (resp_data response) ''issue''), clearCache s')
      \<and> cache (clearCache s') = Map.empty)
 \<and> (api srv (Patch (''/issues/'' @ ToString issueId) updateData) s = (patched, s')
      \<and> (\<forall>response. patched = Inr response \<longrightarrow> \<not> truthy (getProp (resp_data response) ''issue''))
      \<and> api srv (Get (''/issues/'' @ ToString issueId)) (clearCache s') = (Inr fetched, sf) \<longrightarrow>
      updateIssue cfg srv issueId updateData s
        = (firstIssue (resp_data fetched),
           if CACHE_ENABLED cfg
           then sf\<lparr>cache := [''issue-'' @ ToString issueId \<mapsto>
                               \<lparr>data = resp_data fetched, timestamp = clock sf\<rparr>]\<rparr>
           else sf)
      \<and> cache sf = Map.empty
      \<and> (\<forall>t srv'. CACHE_ENABLED cfg \<and> t - clock sf < CACHE_TTL_SECONDS cfg * 1000 \<longrightarrow>
            getIssueById cfg srv' issueId
              ((snd (updateIssue cfg srv issueId updateData s))\<lparr>clock := t\<rparr>)
            = (firstIssue (resp_data fetched),
               (snd (updateIssue cfg srv issueId updateData s))\<lparr>clock := t\<rparr>)))
 \<and> (api srv (Patch (''/issues/'' @ ToString issueId) updateData) s = (patched, s')
      \<and> (\<forall>response. patched = Inr response \<longrightarrow> \<not> truthy (getProp (resp_data response) ''issue''))
      \<and> api srv (Get (''/issues/'' @ ToString issueId)) (clearCache s') = (Inl e, sf) \<longrightarrow>
      updateIssue cfg srv issueId updateData s = (Inl e, sf) \<and> cache sf = Map.empty)
 \<and> (k \<noteq> ''issue-'' @ ToString issueId \<longrightarrow>
      cache (snd (updateIssue cfg srv issueId updateData s)) k = None)
 \<and> (cache sx k = None \<longrightarrow>
      cachedRequest cfg k requestFn sx =
        (case requestFn sx of
           (Inl e, sa) \<Rightarrow> (Inl e, sa)
         | (Inr response, sa) \<Rightarrow>
             (Inr (resp_data response),
              if CACHE_ENABLED cfg
              then sa\<lparr>cache := (cache sa)(k \<mapsto> \<lparr>data = resp_data response, timestamp = clock sa\<rparr>)\<rparr>
              else sa)))
 \<and> ((if truthy noteText
      then addIssueNote srv issueId
             (JObject [(''text'', noteText), (''view_state'', JObject [(''name'', JString ''public'')])]) s
      else (Inr JUndefined, s)) = (Inr noted, sn) \<longrightarrow>
      changeIssueStatus cfg srv issueId st resolution noteText s
        = updateIssue cfg srv issueId (statusUpdateData st resolution) sn)"
proof (intro conjI impI allI)
  {
    assume "api srv (Post ''/issues'' issueData) s = (Inr response, s')"
    then show "createIssue srv issueData s = (readProp (resp_data response) ''issue'', clearCache s')"
      by (rule createIssue_posted)
  next
    show "cache (clearCache s') = Map.empty" by (simp add: clearCache_def)
  next
    assume "api srv (Post (''/issues/'' @ ToString issueId @ ''/notes'') noteData) s = (Inr response, s')"
    then show "addIssueNote srv issueId noteData s = (Inr (resp_data response), clearCache s')"
      by (rule addIssueNote_posted)
  next
    show "cache (clearCache s') = Map.empty" by (simp add: clearCache_def)
  next
    assume "api srv (Patch (''/issues/'' @ ToString issueId) updateData) s = (Inr response, s')
      \<and> truthy (getProp (resp_data response) ''issue'')"
    then show "updateIssue cfg srv issueId updateData s
        = (Inr (getProp (resp_data response) ''issue''), clearCache s')"
      by (simp add: updateIssue_echo)
  next
    show "cache (clearCache s') = Map.empty" by (simp add: clearCache_def)
  next
    assume a: "api srv (Patch (''/issues/'' @ ToString issueId) updateData) s = (patched, s')
      \<and> (\<forall>response. patched = Inr response \<longrightarrow> \<not> truthy (getProp (resp_data response) ''issue''))
      \<and> api srv (Get (''/issues/'' @ ToString issueId)) (clearCache s') = (Inr fetched, sf)"
    then have g: "api srv (Get (''/issues/'' @ ToString issueId)) (clearCache s') = (Inr fetched, sf)"
      by blast
    have f: "updateIssue cfg srv issueId updateData s = getIssueById cfg srv issueId (clearCache s')"
      using a by (blast intro: updateIssue_fallback)
    show u: "updateIssue cfg srv issueId updateData s
        = (firstIssue (resp_data fetched),
           if CACHE_ENABLED cfg
           then sf\<lparr>cache := [''issue-'' @ ToString issueId \<mapsto>
                               \<lparr>data = resp_data fetched, timestamp = clock sf\<rparr>]\<rparr>
           else sf)"
      unfolding f by (rule refetch_ok [OF g])
    show "cache sf = Map.empty" using g by (rule api_cleared)
    fix t srv'
    assume c: "CACHE_ENABLED cfg \<and> t - clock sf < CACHE_TTL_SECONDS cfg * 1000"
    then have en: "CACHE_ENABLED cfg" and w: "t - clock sf < CACHE_TTL_SECONDS cfg * 1000"
      by simp_all
    show "getIssueById cfg srv' issueId
              ((snd (updateIssue cfg srv issueId updateData s))\<lparr>clock := t\<rparr>)
            = (firstIssue (resp_data fetched),
               (snd (updateIssue cfg srv issueId updateData s))\<lparr>clock := t\<rparr>)"
      using fresh_entry_served [OF en w, of srv' issueId "resp_data fetched"]
      by (simp add: u en)
  next
    assume a: "api srv (Patch (''/issues/'' @ ToString issueId) updateData) s = (patched, s')
      \<and> (\<forall>response. patched = Inr response \<longrightarrow> \<not> truthy (getProp (resp_data response) ''issue''))
      \<and> api srv (Get (''/issues/'' @ ToString issueId)) (clearCache s') = (Inl e, sf)"
    then have g: "api srv (Get (''/issues/'' @ ToString issueId)) (clearCache s') = (Inl e, sf)"
      by blast
    have f: "updateIssue cfg srv issueId updateData s = getIssueById cfg srv issueId (clearCache s')"
      using a by (blast intro: updateIssue_fallback)
    show "updateIssue cfg srv issueId updateData s = (Inl e, sf)"
      unfolding f by (rule refetch_failed [OF g])
    show "cache sf = Map.empty" using g by (rule api_cleared)
  next
    assume "k \<noteq> ''issue-'' @ ToString issueId"
    then show "cache (snd (updateIssue cfg srv issueId updateData s)) k = None"
      by (rule updateIssue_other_keys)
  next
    assume "cache sx k = None"
    then show "cachedRequest cfg k requestFn sx =
        (case requestFn sx of
           (Inl e, sa) \<Rightarrow> (Inl e, sa)
         | (Inr response, sa) \<Rightarrow>
             (Inr (resp_data response),
              if CACHE_ENABLED cfg
              then sa\<lparr>cache := (cache sa)(k \<mapsto> \<lparr>data = resp_data response, timestamp = clock sa\<rparr>)\<rparr>
              else sa))"
      by (rule cachedRequest_no_entry)
  next
    assume "(if truthy noteText
      then addIssueNote srv issueId
             (JObject [(''text'', noteText), (''view_state'', JObject [(''name'', JString ''public'')])]) s
      else (Inr JUndefined, s)) = (Inr noted, sn)"
    then show "changeIssueStatus cfg srv issueId st resolution noteText s
        = updateIssue cfg srv issueId (statusUpdateData st resolution) sn"
      by (rule changeIssueStatus_as_update)
  }
qed

theorem mutations_drop_prior_entries_witness:
  "updateIssue cachingOn quietServer (JNumber (Num 7)) (JObject [(''summary'', JString ''Fixed'')])
     warmState = (Inr issue7, refetchedState)
   \<and> getIssueById cachingOn quietServer (JNumber (Num 7)) (refetchedState\<lparr>clock := 2000\<rparr>)
       = (Inr issue7, refetchedState\<lparr>clock := 2000\<rparr>)
   \<and> cache refetchedState ''projects'' = None
   \<and> createIssue quietServer (JObject [(''summary'', JString ''New'')]) warmState
       = (Inr issue7,
          \<lparr>cache = Map.empty, clock = 1005,
           sent = [Post ''/issues'' (JObject [(''summary'', JString ''New'')])]\<rparr>)"
proof -
  let ?d = "JObject [(''summary'', JString ''Fixed'')]"
  let ?sp = "\<lparr>cache = [''projects'' \<mapsto> \<lparr>data = JArray [], timestamp = 900\<rparr>], clock = 1005,
              sent = [Patch ''/issues/7'' ?d]\<rparr>"
  let ?sf = "\<lparr>cache = Map.empty, clock = 1010,
              sent = [Patch ''/issues/7'' ?d, Get ''/issues/7'']\<rparr>"
  let ?body = "JObject [(''issues'', JArray [issue7])]"
  have h: "api quietServer (Patch (''/issues/'' @ ToString (JNumber (Num 7))) ?d) warmState
             = (Inr (AxiosResponse 200 ''OK'' (JObject [])), ?sp)
           \<and> (\<forall>response. Inr (AxiosResponse 200 ''OK'' (JObject [])) = Inr response
                  \<longrightarrow> \<not> truthy (getProp (resp_data response) ''issue''))
           \<and> api quietServer (Get (''/issues/'' @ ToString (JNumber (Num 7)))) (clearCache ?sp)
               = (Inr (AxiosResponse 200 ''OK'' ?body), ?sf)"
    by (auto simp: api_def quietServer_def responseInterceptor_def warmState_def clearCache_def
          digits.simps)
  note t = mutations_drop_prior_entries
             [where cfg = cachingOn and srv = quietServer and issueId = "JNumber (Num 7)"
                and updateData = ?d and s = warmState,
              THEN conjunct2, THEN conjunct2, THEN conjunct2, THEN conjunct1, THEN mp, OF h]
  have en: "CACHE_ENABLED cachingOn \<and> 2000 - clock ?sf < CACHE_TTL_SECONDS cachingOn * 1000"
    by (simp add: cachingOn_def)
  have f: "firstIssue ?body = Inr issue7"
    by (simp add: firstIssue_def readProp_def)
  have u: "updateIssue cachingOn quietServer (JNumber (Num 7)) ?d warmState
             = (Inr issue7, refetchedState)"
    using t [THEN conjunct1] f
    by (simp add: cachingOn_def refetchedState_def digits.simps)
  have g: "getIssueById cachingOn quietServer (JNumber (Num 7)) (refetchedState\<lparr>clock := 2000\<rparr>)
             = (Inr issue7, refetchedState\<lparr>clock := 2000\<rparr>)"
    using t [THEN conjunct2, THEN conjunct2, rule_format, of 2000 quietServer, OF en] f
    by (simp add: u)
  have p: "api quietServer (Post ''/issues'' (JObject [(''summary'', JString ''New'')])) warmState
             = (Inr (AxiosResponse 201 ''Created'' (JObject [(''issue'', issue7)])),
                \<lparr>cache = [''projects'' \<mapsto> \<lparr>data = JArray [], timestamp = 900\<rparr>], clock = 1005,
                 sent = [Post ''/issues'' (JObject [(''summary'', JString ''New'')])]\<rparr>)"
    by (simp add: api_def quietServer_def responseInterceptor_def warmState_def)
  have c: "createIssue quietServer (JObject [(''summary'', JString ''New'')]) warmState
             = (Inr issue7,
                \<lparr>cache = Map.empty, clock = 1005,
                 sent = [Post ''/issues'' (JObject [(''summary'', JString ''New'')])]\<rparr>)"
    using mutations_drop_prior_entries [THEN conjunct1, THEN mp, OF p, THEN conjunct1]
    by (simp add: readProp_def clearCache_def)
  have k: "cache refetchedState ''projects'' = None"
    by (simp add: refetchedState_def)
  from u g k c show ?thesis by simp
qed

text \<open>After an \<^verbatim>\<open>updateIssue\<close> that took the fallback path with caching enabled the cache
  is not empty, and a following \<^verbatim>\<open>getIssueById\<close> is served from it: the state, and with
  it the list of requests sent, stays as it is.\<close>

theorem updateIssue_fallback_counterexample:
  "cache (snd (updateIssue cachingOn quietServer (JNumber (Num 7))
                 (JObject [(''summary'', JString ''Fixed'')]) startState)) ''issue-7''
     = Some \<lparr>data = JObject [(''issues'', JArray [issue7])], timestamp = 1010\<rparr>
   \<and> getIssueById cachingOn quietServer (JNumber (Num 7))
        (snd (updateIssue cachingOn quietServer (JNumber (Num 7))
                (JObject [(''summary'', JString ''Fixed'')]) startState))
     = (Inr issue7,
        snd (updateIssue cachingOn quietServer (JNumber (Num 7))
               (JObject [(''summary'', JString ''Fixed'')]) startState))"
  by (simp add: updateIssue_def getIssueById_def cachedRequest_def clearCache_def api_def
        quietServer_def cachingOn_def startState_def responseInterceptor_def digits.simps
        firstIssue_def readProp_def)

subsection \<open>Errors of the mutation request\<close>

text \<open>
  Claim C4, as amended. An error of the POST of \<^verbatim>\<open>createIssue\<close> or \<^verbatim>\<open>addIssueNote\<close>, and of
  the note that \<^verbatim>\<open>changeIssueStatus\<close> posts first, propagates to the caller unchanged.
  An error of the PATCH of \<^verbatim>\<open>updateIssue\<close> or \<^verbatim>\<open>changeIssueStatus\<close> does not: as when the
  PATCH succeeds without echoing the issue, the cache is cleared and the issue is
  re-fetched by id, and the caller gets the outcome of that re-fetch, the issue when the
  GET is answered.
\<close>

theorem mutation_errors:
  "(api srv (Post ''/issues'' issueData) s = (Inl e, s') \<longrightarrow>
      createIssue srv issueData s = (Inl e, s'))
 \<and> (api srv (Post (''/issues/'' @ ToString issueId @ ''/notes'') noteData) s = (Inl e, s') \<longrightarrow>
      addIssueNote srv issueId noteData s = (Inl e, s'))
 \<and> (truthy noteText
      \<and> addIssueNote srv issueId
           (JObject [(''text'', noteText), (''view_state'', JObject [(''name'', JString ''public'')])]) s
         = (Inl e, s') \<longrightarrow>
      changeIssueStatus cfg srv issueId st resolution noteText s = (Inl e, s'))
 \<and> (api srv (Patch (''/issues/'' @ ToString issueId) updateData) s = (Inl e, s') \<longrightarrow>
      updateIssue cfg srv issueId updateData s = getIssueById cfg srv issueId (clearCache s'))
 \<and> (api srv (Patch (''/issues/'' @ ToString issueId) updateData) s = (Inr response, s')
      \<and> \<not> truthy (getProp (resp_data response) ''issue'') \<longrightarrow>
      updateIssue cfg srv issueId updateData s = getIssueById cfg srv issueId (clearCache s'))
 \<and> ((if truthy noteText
       then addIssueNote srv issueId
              (JObject [(''text'', noteText), (''view_state'', JObject [(''name'', JString ''public'')])]) s
       else (Inr JUndefined, s)) = (Inr noted, sn)
      \<and> api srv (Patch (''/issues/'' @ ToString issueId) (statusUpdateData st resolution)) sn
          = (Inl e, s') \<longrightarrow>
      changeIssueStatus cfg srv issueId st resolution noteText s
        = getIssueById cfg srv issueId (clearCache s'))
 \<and> (\<forall>fetched sf.
       api srv (Get (''/issues/'' @ ToString issueId)) (clearCache s') = (Inr fetched, sf) \<longrightarrow>
       fst (getIssueById cfg srv issueId (clearCache s')) = firstIssue (resp_data fetched))"
proof (intro conjI impI allI)
  assume "api srv (Post ''/issues'' issueData) s = (Inl e, s')"
  then show "createIssue srv issueData s = (Inl e, s')"
    by (simp add: createIssue_def)
next
  assume "api srv (Post (''/issues/'' @ ToString issueId @ ''/notes'') noteData) s = (Inl e, s')"
  then show "addIssueNote srv issueId noteData s = (Inl e, s')"
    by (simp add: addIssueNote_def)
next
  assume "truthy noteText
      \<and> addIssueNote srv issueId
           (JObject [(''text'', noteText), (''view_state'', JObject [(''name'', JString ''public'')])]) s
         = (Inl e, s')"
  then show "changeIssueStatus cfg srv issueId st resolution noteText s = (Inl e, s')"
    by (simp add: changeIssueStatus_note_failed)
next
  assume "api srv (Patch (''/issues/'' @ ToString issueId) updateData) s = (Inl e, s')"
  then show "updateIssue cfg srv issueId updateData s = getIssueById cfg srv issueId (clearCache s')"
    by (rule updateIssue_patch_failed)
next
  assume "api srv (Patch (''/issues/'' @ ToString issueId) updateData) s = (Inr response, s')
      \<and> \<not> truthy (getProp (resp_data response) ''issue'')"
  then show "updateIssue cfg srv issueId updateData s = getIssueById cfg srv issueId (clearCache s')"
    by (simp add: updateIssue_no_echo)
next
  assume a: "(if truthy noteText
       then addIssueNote srv issueId
              (JObject [(''text'', noteText), (''view_state'', JObject [(''name'', JString ''public'')])]) s
       else (Inr JUndefined, s)) = (Inr noted, sn)
      \<and> api srv (Patch (''/issues/'' @ ToString issueId) (statusUpdateData st resolution)) sn
          = (Inl e, s')"
  then have "changeIssueStatus cfg srv issueId st resolution noteText s
        = updateIssue cfg srv issueId (statusUpdateData st resolution) sn"
    by (blast intro: changeIssueStatus_as_update)
  also have "\<dots> = getIssueById cfg srv issueId (clearCache s')"
    using a by (blast intro: updateIssue_patch_failed)
  finally show "changeIssueStatus cfg srv issueId st resolution noteText s
        = getIssueById cfg srv issueId (clearCache s')" .
next
  fix fetched sf
  assume "api srv (Get (''/issues/'' @ ToString issueId)) (clearCache s') = (Inr fetched, sf)"
  then show "fst (getIssueById cfg srv issueId (clearCache s')) = firstIssue (resp_data fetched)"
    unfolding getIssueById_cleared by simp
qed

theorem mutation_errors_witness:
  "createIssue rejectingServer (JObject [(''summary'', JString ''New'')]) warmState
     = (Inl (MantisApiError ''API error: 500 Internal Server Error'' (Some 500) JNull),
        warmState\<lparr>clock := 1005, sent := [Post ''/issues'' (JObject [(''summary'', JString ''New'')])]\<rparr>)
   \<and> fst (changeIssueStatus cachingOn rejectingServer (JNumber (Num 7)) (JString ''resolved'')
            JUndefined (JString ''done'') warmState)
     = Inl (MantisApiError ''API error: 500 Internal Server Error'' (Some 500) JNull)
   \<and> fst (changeIssueStatus cachingOn rejectingServer (JNumber (Num 7)) (JString ''resolved'')
            JUndefined JUndefined warmState) = Inr issue7"
  using mutation_errors
          [where srv = rejectingServer and issueData = "JObject [(''summary'', JString ''New'')]"
             and s = warmState
             and e = "MantisApiError ''API error: 500 Internal Server Error'' (Some 500) JNull"
             and s' = "warmState\<lparr>clock := 1005,
                          sent := [Post ''/issues'' (JObject [(''summary'', JString ''New'')])]\<rparr>"]
        mutation_errors
          [where srv = rejectingServer and s = warmState and cfg = cachingOn
             and issueId = "JNumber (Num 7)" and st = "JString ''resolved''"
             and resolution = JUndefined and noteText = JUndefined and noted = JUndefined
             and sn = warmState
             and e = "MantisApiError ''API error: 500 Internal Server Error'' (Some 500) JNull"
             and s' = "warmState\<lparr>clock := 1005,
                          sent := [Patch ''/issues/7''
                                     (JObject [(''status'', JObject [(''name'', JString ''resolved'')])])]\<rparr>"]
  by (simp add: createIssue_def addIssueNote_def changeIssueStatus_def
        getIssueById_def cachedRequest_def firstIssue_def statusUpdateData_def
        api_def rejectingServer_def serverError_def responseInterceptor_def readProp_def
        clearCache_def warmState_def cachingOn_def digits.simps)

text \<open>A PATCH rejected with status 500, and \<^verbatim>\<open>updateIssue\<close> returning the re-fetched
  issue all the same.\<close>

theorem updateIssue_patch_error_counterexample:
  "fst (api rejectingServer (Patch ''/issues/7'' (JObject [(''summary'', JString ''Fixed'')])) startState)
     = Inl (MantisApiError ''API error: 500 Internal Server Error'' (Some 500) JNull)
   \<and> fst (updateIssue cachingOn rejectingServer (JNumber (Num 7))
            (JObject [(''summary'', JString ''Fixed'')]) startState) = Inr issue7"
  by (simp add: updateIssue_def getIssueById_def cachedRequest_def firstIssue_def
        api_def rejectingServer_def serverError_def responseInterceptor_def readProp_def
        clearCache_def startState_def cachingOn_def digits.simps)

subsection \<open>The cache key of \<^verbatim>\<open>getIssues\<close>\<close>

lemma getProp_map_of:
  "map_of ps = map_of qs \<Longrightarrow> getProp (JObject ps) = getProp (JObject qs)"
  by (rule ext) simp

lemma issuesFilter_map_of:
  assumes "map_of ps = map_of qs"
  shows "issuesFilter (JObject ps) = issuesFilter (JObject qs)"
  unfolding issuesFilter_def getProp_map_of [OF assms] ..

lemma issuesCacheKey_map_of:
  assumes "map_of ps = map_of qs"
  shows "issuesCacheKey (JObject ps) = issuesCacheKey (JObject qs)"
  by (simp add: issuesCacheKey_def issuesParams_def issuesPage_def issuesPageSize_def
        issuesFilter_map_of [OF assms] getProp_map_of [OF assms] cong: sum.case_cong)

lemma issuesUrl_map_of:
  assumes "map_of ps = map_of qs"
  shows "issuesUrl (JObject ps) = issuesUrl (JObject qs)"
  by (simp add: issuesUrl_def issuesParams_def issuesPage_def issuesPageSize_def
        issuesFilter_map_of [OF assms] getProp_map_of [OF assms] cong: sum.case_cong)

lemma getIssues_map_of:
  "map_of ps = map_of qs \<Longrightarrow> getIssues cfg srv (JObject ps) s = getIssues cfg srv (JObject qs) s"
  by (simp add: getIssues_def issuesCacheKey_map_of [of ps qs] issuesUrl_map_of [of ps qs])

lemma getIssues_served:
  assumes en: "CACHE_ENABLED cfg"
    and key: "issuesCacheKey arg = Inr key"
    and res: "getIssues cfg srv arg s = (Inr v, sa)"
  shows "\<exists>entry. cache sa key = Some entry \<and>
           (\<forall>t srv'. t - timestamp entry < CACHE_TTL_SECONDS cfg * 1000 \<longrightarrow>
              getIssues cfg srv' arg (sa\<lparr>clock := t\<rparr>) = (Inr v, sa\<lparr>clock := t\<rparr>))"
proof -
  obtain url where url: "issuesUrl arg = Inr url"
    using key by (auto simp: issuesCacheKey_def issuesUrl_def split: sum.splits)
  obtain response where c: "cachedRequest cfg key (api srv (Get url)) s = (Inr response, sa)"
    and r: "readProp response ''issues'' = Inr v"
    using res key url by (auto simp: getIssues_def split: prod.splits sum.splits)
  from cachedRequest_stores [OF en c]
  obtain entry where e: "cache sa key = Some entry" "data entry = response" by blast
  have "\<forall>t srv'. t - timestamp entry < CACHE_TTL_SECONDS cfg * 1000 \<longrightarrow>
              getIssues cfg srv' arg (sa\<lparr>clock := t\<rparr>) = (Inr v, sa\<lparr>clock := t\<rparr>)"
    using en e r key url by (simp add: getIssues_def cachedRequest_def)
  with e show ?thesis by blast
qed

text \<open>
  Claim C7. The cache key \<^verbatim>\<open>getIssues\<close> builds depends only on which fields its parameter
  object holds and on their values: two objects with the same properties, listed in
  any order, give the same key and the same call, so that after a call that returned
  the issues with caching enabled, a repeated call with the fields reordered is served
  from the same entry while it is within its TTL.
\<close>

theorem issuesCacheKey_field_order:
  "(map_of ps = map_of qs \<longrightarrow>
      issuesCacheKey (JObject ps) = issuesCacheKey (JObject qs)
      \<and> getIssues cfg srv (JObject ps) s = getIssues cfg srv (JObject qs) s)
 \<and> (distinct (map fst ps) \<and> distinct (map fst qs) \<and> set ps = set qs \<longrightarrow>
      issuesCacheKey (JObject ps) = issuesCacheKey (JObject qs))
 \<and> (distinct (map fst ps) \<and> distinct (map fst qs) \<and> set ps = set qs
      \<and> CACHE_ENABLED cfg \<and> issuesCacheKey (JObject ps) = Inr key
      \<and> getIssues cfg srv (JObject ps) s = (Inr v, sa) \<longrightarrow>
      (\<exists>entry. cache sa key = Some entry \<and>
         (\<forall>t srv'. t - timestamp entry < CACHE_TTL_SECONDS cfg * 1000 \<longrightarrow>
            getIssues cfg srv' (JObject qs) (sa\<lparr>clock := t\<rparr>) = (Inr v, sa\<lparr>clock := t\<rparr>))))"
proof (intro conjI impI)
  assume "map_of ps = map_of qs"
  then show "issuesCacheKey (JObject ps) = issuesCacheKey (JObject qs)"
    and "getIssues cfg srv (JObject ps) s = getIssues cfg srv (JObject qs) s"
    by (rule issuesCacheKey_map_of, rule getIssues_map_of)
next
  assume "distinct (map fst ps) \<and> distinct (map fst qs) \<and> set ps = set qs"
  then have "map_of ps = map_of qs" by (simp add: map_of_inject_set)
  then show "issuesCacheKey (JObject ps) = issuesCacheKey (JObject qs)"
    by (rule issuesCacheKey_map_of)
next
  assume a: "distinct (map fst ps) \<and> distinct (map fst qs) \<and> set ps = set qs
      \<and> CACHE_ENABLED cfg \<and> issuesCacheKey (JObject ps) = Inr key
      \<and> getIssues cfg srv (JObject ps) s = (Inr v, sa)"
  then have m: "map_of ps = map_of qs" by (simp add: map_of_inject_set)
  from a obtain entry where e: "cache sa key = Some entry"
    and h: "\<forall>t srv'. t - timestamp entry < CACHE_TTL_SECONDS cfg * 1000 \<longrightarrow>
              getIssues cfg srv' (JObject ps) (sa\<lparr>clock := t\<rparr>) = (Inr v, sa\<lparr>clock := t\<rparr>)"
    using getIssues_served by blast
  have "\<forall>t srv'. t - timestamp entry < CACHE_TTL_SECONDS cfg * 1000 \<longrightarrow>
              getIssues cfg srv' (JObject qs) (sa\<lparr>clock := t\<rparr>) = (Inr v, sa\<lparr>clock := t\<rparr>)"
    using h getIssues_map_of [OF m] by simp
  with e show "\<exists>entry. cache sa key = Some entry \<and>
         (\<forall>t srv'. t - timestamp entry < CACHE_TTL_SECONDS cfg * 1000 \<longrightarrow>
            getIssues cfg srv' (JObject qs) (sa\<lparr>clock := t\<rparr>) = (Inr v, sa\<lparr>clock := t\<rparr>))"
    by blast
qed

theorem issuesCacheKey_field_order_witness:
  "issuesCacheKey (JObject [(''projectId'', JNumber (Num 3)), (''pageSize'', JNumber (Num 2)),
                          (''page'', JNumber (Num 1))])
     = Inr ''issues-&project_id=3-1-2''
   \<and> issuesCacheKey (JObject [(''page'', JNumber (Num 1)), (''projectId'', JNumber (Num 3)),
                            (''pageSize'', JNumber (Num 2))])
     = Inr ''issues-&project_id=3-1-2''
   \<and> getIssues cachingOn quietServer
         (JObject [(''projectId'', JNumber (Num 3)), (''pageSize'', JNumber (Num 2)),
                   (''page'', JNumber (Num 1))]) startState
     = (Inr (JArray [issue7]), issuesCached)
   \<and> getIssues cachingOn quietServer
         (JObject [(''page'', JNumber (Num 1)), (''projectId'', JNumber (Num 3)),
                   (''pageSize'', JNumber (Num 2))]) (issuesCached\<lparr>clock := 2000\<rparr>)
     = (Inr (JArray [issue7]), issuesCached\<lparr>clock := 2000\<rparr>)"
proof -
  let ?ps = "[(''projectId'', JNumber (Num 3)), (''pageSize'', JNumber (Num 2)),
              (''page'', JNumber (Num 1))]"
  let ?qs = "[(''page'', JNumber (Num 1)), (''projectId'', JNumber (Num 3)),
              (''pageSize'', JNumber (Num 2))]"
  have k: "issuesCacheKey (JObject ?ps) = Inr ''issues-&project_id=3-1-2''"
    by (simp add: issuesCacheKey_def issuesParams_def issuesFilter_def selectPart_def lengthOf_def
        filterPart_def issuesPage_def issuesPageSize_def or_js_def digits.simps)
  have u: "issuesUrl (JObject ?ps) = Inr ''/issues?page=1&page_size=2&project_id=3''"
    by (simp add: issuesUrl_def issuesParams_def issuesFilter_def selectPart_def lengthOf_def
        filterPart_def issuesPage_def issuesPageSize_def or_js_def digits.simps)
  have g: "getIssues cachingOn quietServer (JObject ?ps) startState
             = (Inr (JArray [issue7]), issuesCached)"
    by (simp add: getIssues_def k u cachedRequest_def api_def quietServer_def
          responseInterceptor_def readProp_def cachingOn_def startState_def issuesCached_def)
  have h: "distinct (map fst ?ps) \<and> distinct (map fst ?qs) \<and> set ?ps = set ?qs"
    by auto
  have same: "issuesCacheKey (JObject ?ps) = issuesCacheKey (JObject ?qs)"
    by (rule issuesCacheKey_field_order [THEN conjunct2, THEN conjunct1, THEN mp, OF h])
  have en: "CACHE_ENABLED cachingOn" by (simp add: cachingOn_def)
  have h3: "distinct (map fst ?ps) \<and> distinct (map fst ?qs) \<and> set ?ps = set ?qs
      \<and> CACHE_ENABLED cachingOn \<and> issuesCacheKey (JObject ?ps) = Inr ''issues-&project_id=3-1-2''
      \<and> getIssues cachingOn quietServer (JObject ?ps) startState
          = (Inr (JArray [issue7]), issuesCached)"
    using h en k g by blast
  from issuesCacheKey_field_order
         [THEN conjunct2, THEN conjunct2, THEN mp, OF h3]
  obtain entry where e: "cache issuesCached ''issues-&project_id=3-1-2'' = Some entry"
    and served: "\<forall>t srv'. t - timestamp entry < CACHE_TTL_SECONDS cachingOn * 1000 \<longrightarrow>
            getIssues cachingOn srv' (JObject ?qs) (issuesCached\<lparr>clock := t\<rparr>)
              = (Inr (JArray [issue7]), issuesCached\<lparr>clock := t\<rparr>)"
    by blast
  from e have "timestamp entry = 1005" by (auto simp: issuesCached_def)
  then have "2000 - timestamp entry < CACHE_TTL_SECONDS cachingOn * 1000"
    by (simp add: cachingOn_def)
  with served have "getIssues cachingOn quietServer (JObject ?qs) (issuesCached\<lparr>clock := 2000\<rparr>)
              = (Inr (JArray [issue7]), issuesCached\<lparr>clock := 2000\<rparr>)"
    by blast
  with k same g show ?thesis by simp
qed

subsection \<open>The cache window of \<^verbatim>\<open>getUserByUsername\<close>\<close>

lemma cachedRequest_frame:
  assumes "key \<noteq> k" and "cache (snd (requestFn s)) = cache s"
  shows "cache (snd (cachedRequest cfg key requestFn s)) k = cache s k"
proof (cases "requestFn s")
  case (Pair r s')
  with assms(2) have "cache s' = cache s" by simp
  with Pair assms(1) show ?thesis
    by (cases r) (simp_all add: cachedRequest_def split: option.splits)
qed

lemma cachedRequest_api_frame:
  "key \<noteq> k \<Longrightarrow> cache (snd (cachedRequest cfg key (api srv rq) s)) k = cache s k"
  by (rule cachedRequest_frame) (simp_all add: api_def split: prod.splits)

lemma getIssues_frame:
  "cache (snd (getIssues cfg srv arg s)) (''user_'' @ u) = cache s (''user_'' @ u)"
proof (cases "issuesCacheKey arg")
  case (Inl e)
  then show ?thesis by (simp add: getIssues_def split: sum.splits)
next
  case (Inr key)
  then have k: "key \<noteq> ''user_'' @ u"
    by (auto simp: issuesCacheKey_def split: sum.splits)
  show ?thesis
  proof (cases "issuesUrl arg")
    case (Inl e)
    then show ?thesis using Inr by (simp add: getIssues_def)
  next
    case url: (Inr url)
    have "cache (snd (cachedRequest cfg key (api srv (Get url)) s)) (''user_'' @ u)
            = cache s (''user_'' @ u)"
      using k by (rule cachedRequest_api_frame)
    then show ?thesis using Inr url
      by (auto simp: getIssues_def split: prod.splits sum.splits)
  qed
qed

lemma getIssueById_frame:
  "cache (snd (getIssueById cfg srv issueId s)) (''user_'' @ u) = cache s (''user_'' @ u)"
proof -
  have "cache (snd (cachedRequest cfg (''issue-'' @ ToString issueId)
                     (api srv (Get (''/issues/'' @ ToString issueId))) s)) (''user_'' @ u)
          = cache s (''user_'' @ u)"
    by (rule cachedRequest_api_frame) simp
  then show ?thesis
    by (auto simp: getIssueById_def split: prod.splits sum.splits)
qed

lemma getUser_frame:
  "cache (snd (getUser cfg srv userId s)) (''user_'' @ u) = cache s (''user_'' @ u)"
proof -
  have "cache (snd (cachedRequest cfg (''user-'' @ ToString userId)
                     (api srv (Get (''/users/'' @ ToString userId))) s)) (''user_'' @ u)
          = cache s (''user_'' @ u)"
    by (rule cachedRequest_api_frame) simp
  then show ?thesis by (simp add: getUser_def)
qed

lemma getUserByUsername_frame:
  "u' \<noteq> u \<Longrightarrow>
   cache (snd (getUserByUsername srv u' s)) (''user_'' @ u) = cache s (''user_'' @ u)"
  by (auto simp: getUserByUsername_def Let_def split: option.splits prod.splits sum.splits
           dest!: api_state)

lemma read_frame:
  "isRead op \<Longrightarrow> op \<noteq> GetUserByUsername u \<Longrightarrow>
   cache (snd (perform cfg srv op s)) (''user_'' @ u) = cache s (''user_'' @ u)"
proof (cases op)
  case (GetIssues x)
  then show ?thesis using getIssues_frame [of cfg srv x s u] by simp
next
  case (GetIssueById x)
  then show ?thesis using getIssueById_frame [of cfg srv x s u] by simp
next
  case GetCurrentUser
  then show ?thesis
    using cachedRequest_api_frame [of "''current-user''" "''user_'' @ u" cfg srv "Get ''/users/me''" s]
    by (simp add: getCurrentUser_def)
next
  case (GetUser x)
  then show ?thesis using getUser_frame [of cfg srv x s u] by simp
next
  case GetProjects
  then show ?thesis
    using cachedRequest_api_frame [of "''projects''" "''user_'' @ u" cfg srv "Get ''/projects''" s]
    by (simp add: getProjects_def)
next
  case (GetUsersByProjectId x)
  then show ?thesis
    using cachedRequest_api_frame [of "''users-by-project-'' @ ToString x" "''user_'' @ u" cfg srv
            "Get (''/projects/'' @ ToString x @ ''/users'')" s]
    by (simp add: getUsersByProjectId_def)
next
  case (GetUserByUsername x)
  assume "op \<noteq> GetUserByUsername u"
  with GetUserByUsername show ?thesis using getUserByUsername_frame [of x u srv s] by simp
qed simp_all

lemma updateIssue_user_entry:
  "cache (snd (updateIssue cfg srv issueId updateData s)) (''user_'' @ u) = None"
proof -
  obtain r s' where u: "updateIssue cfg srv issueId updateData s = (r, s')"
    by (cases "updateIssue cfg srv issueId updateData s")
  have k: "''issue-'' @ ToString issueId \<noteq> ''user_'' @ u" by simp
  from updateIssue_cache [OF u] k have "cache s' (''user_'' @ u) = None"
    by (elim disjE conjE exE) simp_all
  then show ?thesis by (simp add: u)
qed

lemma addIssueNote_failed_cache:
  "addIssueNote srv issueId noteData s = (Inl e, s') \<Longrightarrow> cache s' = cache s"
  by (auto simp: addIssueNote_def split: prod.splits sum.splits dest!: api_state)

lemma changeIssueStatus_user_entry:
  "cache (snd (changeIssueStatus cfg srv issueId st resolution noteText s)) (''user_'' @ u)
     = cache s (''user_'' @ u)
   \<or> cache (snd (changeIssueStatus cfg srv issueId st resolution noteText s)) (''user_'' @ u) = None"
proof -
  let ?noteData = "JObject [(''text'', noteText), (''view_state'', JObject [(''name'', JString ''public'')])]"
  let ?step = "if truthy noteText then addIssueNote srv issueId ?noteData s else (Inr JUndefined, s)"
  obtain nr sn where n: "?step = (nr, sn)" by (cases ?step)
  show ?thesis
  proof (cases nr)
    case (Inl e)
    with n have t: "truthy noteText" and f: "addIssueNote srv issueId ?noteData s = (Inl e, sn)"
      by (auto split: if_splits)
    have "changeIssueStatus cfg srv issueId st resolution noteText s = (Inl e, sn)"
      using t f by (rule changeIssueStatus_note_failed)
    moreover have "cache sn = cache s" using f by (rule addIssueNote_failed_cache)
    ultimately show ?thesis by simp
  next
    case (Inr noted)
    with n have "?step = (Inr noted, sn)" by simp
    then have "changeIssueStatus cfg srv issueId st resolution noteText s
                 = updateIssue cfg srv issueId (statusUpdateData st resolution) sn"
      by (rule changeIssueStatus_as_update)
    then show ?thesis using updateIssue_user_entry [of cfg srv issueId _ sn u] by simp
  qed
qed

lemma write_frame:
  "\<not> isRead op \<Longrightarrow>
   cache (snd (perform cfg srv op s)) (''user_'' @ u) = cache s (''user_'' @ u)
   \<or> cache (snd (perform cfg srv op s)) (''user_'' @ u) = None"
proof (cases op)
  case ClearCache
  then show ?thesis by (simp add: clearCache_def)
next
  case (CreateIssue x)
  then show ?thesis
    by (auto simp: createIssue_def clearCache_def split: prod.splits sum.splits dest!: api_state)
next
  case (UpdateIssue x y)
  then show ?thesis using updateIssue_user_entry [of cfg srv x y s u] by simp
next
  case (ChangeIssueStatus x st res nt)
  then show ?thesis using changeIssueStatus_user_entry [of cfg srv x st res nt s u] by simp
next
  case (AddIssueNote x y)
  then show ?thesis
    by (auto simp: addIssueNote_def clearCache_def split: prod.splits sum.splits dest!: api_state)
qed simp_all

lemma getUserByUsername_hit:
  "cache s (''user_'' @ username) = Some entry \<Longrightarrow> clock s - timestamp entry < 300000
   \<Longrightarrow> getUserByUsername srv username s = (Inr (data entry), s)"
  by (simp add: getUserByUsername_def)

lemma getUserByUsername_miss:
  assumes m: "\<not> (\<exists>entry. cache s (''user_'' @ username) = Some entry
                      \<and> clock s - timestamp entry < 300000)"
    and a: "api srv (Get (''/users/username/'' @ encodeURIComponent username)) s = (Inr response, s')"
  shows "getUserByUsername srv username s
           = (Inr (resp_data response),
              s'\<lparr>cache := (cache s')(''user_'' @ username \<mapsto>
                            \<lparr>data = resp_data response, timestamp = clock s'\<rparr>)\<rparr>)"
proof (cases "cache s (''user_'' @ username)")
  case None
  then show ?thesis using a by (simp add: getUserByUsername_def Let_def)
next
  case (Some cached)
  with m have "\<not> clock s - timestamp cached < 300000" by simp
  then show ?thesis using Some a by (simp add: getUserByUsername_def Let_def)
qed

lemma getUserByUsername_stores:
  "getUserByUsername srv username s = (Inr v, sa)
   \<Longrightarrow> \<exists>entry. cache sa (''user_'' @ username) = Some entry \<and> data entry = v"
  by (auto simp: getUserByUsername_def Let_def split: option.splits prod.splits sum.splits if_splits)

text \<open>
  Claim C10. \<^verbatim>\<open>getUserByUsername\<close> reads no configuration: whatever \<^verbatim>\<open>CACHE_ENABLED\<close> is,
  it serves an entry of the shared cache under \<^verbatim>\<open>user_<name>\<close> that is younger than
  300000 ms without a request, and otherwise stores the fetched user there with the
  time of the answer; a second call within the window returns the cached user and
  leaves the state, and so the list of requests sent, as it is. No other read touches
  the entry; an operation that is not a read leaves it or clears it.
\<close>

theorem getUserByUsername_own_window:
  "(cache s (''user_'' @ username) = Some entry \<and> clock s - timestamp entry < 300000
     \<longrightarrow> getUserByUsername srv username s = (Inr (data entry), s))
 \<and> (\<not> (\<exists>entry. cache s (''user_'' @ username) = Some entry
                  \<and> clock s - timestamp entry < 300000)
      \<and> api srv (Get (''/users/username/'' @ encodeURIComponent username)) s = (Inr response, s')
     \<longrightarrow> getUserByUsername srv username s
           = (Inr (resp_data response),
              s'\<lparr>cache := (cache s')(''user_'' @ username \<mapsto>
                            \<lparr>data = resp_data response, timestamp = clock s'\<rparr>)\<rparr>))
 \<and> (getUserByUsername srv username s = (Inr v, sa)
     \<longrightarrow> (\<exists>entry. cache sa (''user_'' @ username) = Some entry \<and> data entry = v \<and>
           (\<forall>t cfg srv'. t - timestamp entry < 300000 \<longrightarrow>
              perform cfg srv' (GetUserByUsername username) (sa\<lparr>clock := t\<rparr>)
                = (Inr v, sa\<lparr>clock := t\<rparr>))))
 \<and> (isRead op \<and> op \<noteq> GetUserByUsername username
     \<longrightarrow> cache (snd (perform cfg srv op s)) (''user_'' @ username) = cache s (''user_'' @ username))
 \<and> (\<not> isRead op
     \<longrightarrow> cache (snd (perform cfg srv op s)) (''user_'' @ username) = cache s (''user_'' @ username)
         \<or> cache (snd (perform cfg srv op s)) (''user_'' @ username) = None)"
proof (intro conjI impI)
  assume "cache s (''user_'' @ username) = Some entry \<and> clock s - timestamp entry < 300000"
  then show "getUserByUsername srv username s = (Inr (data entry), s)"
    by (simp add: getUserByUsername_hit)
next
  assume a: "\<not> (\<exists>entry. cache s (''user_'' @ username) = Some entry
                  \<and> clock s - timestamp entry < 300000)
      \<and> api srv (Get (''/users/username/'' @ encodeURIComponent username)) s = (Inr response, s')"
  show "getUserByUsername srv username s
           = (Inr (resp_data response),
              s'\<lparr>cache := (cache s')(''user_'' @ username \<mapsto>
                            \<lparr>data = resp_data response, timestamp = clock s'\<rparr>)\<rparr>)"
    by (rule getUserByUsername_miss [OF a [THEN conjunct1] a [THEN conjunct2]])
next
  assume a: "getUserByUsername srv username s = (Inr v, sa)"
  then obtain entry where e: "cache sa (''user_'' @ username) = Some entry" "data entry = v"
    using getUserByUsername_stores by blast
  have "\<forall>t cfg srv'. t - timestamp entry < 300000 \<longrightarrow>
              perform cfg srv' (GetUserByUsername username) (sa\<lparr>clock := t\<rparr>)
                = (Inr v, sa\<lparr>clock := t\<rparr>)"
    using e by (simp add: getUserByUsername_def Let_def)
  with e show "\<exists>entry. cache sa (''user_'' @ username) = Some entry \<and> data entry = v \<and>
           (\<forall>t cfg srv'. t - timestamp entry < 300000 \<longrightarrow>
              perform cfg srv' (GetUserByUsername username) (sa\<lparr>clock := t\<rparr>)
                = (Inr v, sa\<lparr>clock := t\<rparr>))"
    by blast
next
  assume h: "isRead op \<and> op \<noteq> GetUserByUsername username"
  show "cache (snd (perform cfg srv op s)) (''user_'' @ username) = cache s (''user_'' @ username)"
    by (rule read_frame [OF h [THEN conjunct1] h [THEN conjunct2]])
next
  assume "\<not> isRead op"
  then show "cache (snd (perform cfg srv op s)) (''user_'' @ username) = cache s (''user_'' @ username)
         \<or> cache (snd (perform cfg srv op s)) (''user_'' @ username) = None"
    by (rule write_frame)
qed

theorem getUserByUsername_own_window_witness:
  "perform cachingOff userServer (GetUserByUsername ''alice'') startState = (Inr alice, aliceCached)
   \<and> perform cachingOff userServer (GetUserByUsername ''alice'') (aliceCached\<lparr>clock := 200000\<rparr>)
       = (Inr alice, aliceCached\<lparr>clock := 200000\<rparr>)
   \<and> cache (snd (perform cachingOff userServer GetProjects aliceCached)) ''user_alice''
       = Some \<lparr>data = alice, timestamp = 1005\<rparr>
   \<and> cache (snd (perform cachingOff userServer (AddIssueNote (JNumber (Num 7)) (JString ''Seen''))
                    aliceCached)) ''user_alice'' = None"
proof -
  have enc: "encodeURIComponent ''alice'' = ''alice''"
    by (simp add: encodeURIComponent_def uriUnreserved_def)
  have m: "\<not> (\<exists>entry. cache startState (''user_'' @ ''alice'') = Some entry
                  \<and> clock startState - timestamp entry < 300000)"
    by (simp add: startState_def)
  have a: "api userServer (Get (''/users/username/'' @ encodeURIComponent ''alice'')) startState
             = (Inr (AxiosResponse 200 ''OK'' alice),
                \<lparr>cache = Map.empty, clock = 1005, sent = [Get ''/users/username/alice'']\<rparr>)"
    by (simp add: enc api_def userServer_def responseInterceptor_def startState_def)
  have first: "getUserByUsername userServer ''alice'' startState = (Inr alice, aliceCached)"
    using getUserByUsername_own_window
            [THEN conjunct2, THEN conjunct1, THEN mp, OF conjI [OF m a]]
    by (simp add: aliceCached_def)
  have h: "cache (aliceCached\<lparr>clock := 200000\<rparr>) (''user_'' @ ''alice'')
             = Some \<lparr>data = alice, timestamp = 1005\<rparr>
           \<and> clock (aliceCached\<lparr>clock := 200000\<rparr>)
               - timestamp \<lparr>data = alice, timestamp = 1005\<rparr> < 300000"
    by (simp add: aliceCached_def)
  have second: "getUserByUsername userServer ''alice'' (aliceCached\<lparr>clock := 200000\<rparr>)
                  = (Inr alice, aliceCached\<lparr>clock := 200000\<rparr>)"
    using getUserByUsername_own_window [THEN conjunct1, THEN mp, OF h] by simp
  have r: "isRead GetProjects \<and> GetProjects \<noteq> GetUserByUsername ''alice''"
    by simp
  have kept: "cache (snd (perform cachingOff userServer GetProjects aliceCached)) (''user_'' @ ''alice'')
                = cache aliceCached (''user_'' @ ''alice'')"
    by (rule getUserByUsername_own_window
               [THEN conjunct2, THEN conjunct2, THEN conjunct2, THEN conjunct1, THEN mp, OF r])
  have dropped: "cache (snd (perform cachingOff userServer
                               (AddIssueNote (JNumber (Num 7)) (JString ''Seen'')) aliceCached))
                   ''user_alice'' = None"
    by (simp add: addIssueNote_def api_def userServer_def responseInterceptor_def clearCache_def)
  from first second kept dropped show ?thesis
    by (simp add: aliceCached_def)
qed

subsection \<open>Mapping a SOAP issue\<close>

lemma wire_not_nullish: "wire v \<Longrightarrow> \<not> nullish v"
  by (cases v) simp_all

lemma wire_getProp: "wire v \<Longrightarrow> getProp v k \<noteq> JUndefined \<Longrightarrow> wire (getProp v k)"
proof (cases v)
  case (JObject kvs)
  assume w: "wire v" and p: "getProp v k \<noteq> JUndefined"
  from p JObject obtain x where x: "map_of kvs k = Some x" "getProp v k = x"
    by (cases "map_of kvs k") auto
  then have "(k, x) \<in> set kvs" by (simp add: map_of_SomeD)
  with w JObject have "wire x" by (auto simp: list_all_iff)
  with x show ?thesis by simp
qed simp_all

lemma wire_toArray: "wire v \<Longrightarrow> list_all wire (toArray v)"
  by (cases v) (simp_all add: toArray_def)

lemma coerceOrZero_truthy: "(if truthy (JNumber n) then n else Num 0) = coerceOrZero n"
  by (cases n) simp_all

lemma NumberOr0_eq:
  "NumberOr0 s2n v = (if ownToString v then Inl TypeError else Inr (coerceOrZero (ToNumber s2n v)))"
  by (simp add: NumberOr0_def Number_js_def coerceOrZero_truthy)

lemma mapRef_eq:
  "mapRef s2n v = (if ownToString (getProp v ''id'') then Inl TypeError else Inr (specRef s2n v))"
  by (simp add: mapRef_def specRef_def NumberOr0_eq bindT_def)

lemma mapPerson_eq:
  "mapPerson s2n v = (if ownToString (getProp v ''id'') then Inl TypeError else Inr (specPerson s2n v))"
  by (simp add: mapPerson_def specPerson_def NumberOr0_eq bindT_def)

lemma mapCustomField_eq:
  "\<not> nullish cf \<Longrightarrow>
   mapCustomField s2n cf =
     (if ownToString (getProp (getProp cf ''field'') ''id'') then Inl TypeError
      else Inr (specCustomField s2n cf))"
  by (simp add: mapCustomField_def specCustomField_def mapRef_eq bindT_def)

lemma mapThrowing_eq:
  "(\<And>x. x \<in> set xs \<Longrightarrow> f x = (if bad x then Inl TypeError else Inr (g x)))
   \<Longrightarrow> mapThrowing f xs = (if list_ex bad xs then Inl TypeError else Inr (map g xs))"
  by (induction xs) simp_all

lemma customFields_eq:
  assumes "wire v"
  shows "mapThrowing (mapCustomField s2n) (toArray v) =
           (if list_ex (\<lambda>cf. ownToString (getProp (getProp cf ''field'') ''id'')) (toArray v)
            then Inl TypeError else Inr (map (specCustomField s2n) (toArray v)))"
proof (rule mapThrowing_eq)
  fix x assume "x \<in> set (toArray v)"
  with wire_toArray [OF assms] have "wire x" by (simp add: list_all_iff)
  then have "\<not> nullish x" by (rule wire_not_nullish)
  then show "mapCustomField s2n x =
      (if ownToString (getProp (getProp x ''field'') ''id'') then Inl TypeError
       else Inr (specCustomField s2n x))"
    by (rule mapCustomField_eq)
qed

lemma mapOptional_person:
  "mapOptional (mapPerson s2n) v =
     (if truthy v \<and> ownToString (getProp v ''id'') then Inl TypeError
      else Inr (if truthy v then Some (specPerson s2n v) else None))"
  by (simp add: mapOptional_def mapPerson_eq bindT_def)

lemma mapOptional_ref:
  "mapOptional (mapRef s2n) v =
     (if truthy v \<and> ownToString (getProp v ''id'') then Inl TypeError
      else Inr (if truthy v then Some (specRef s2n v) else None))"
  by (simp add: mapOptional_def mapRef_eq bindT_def)

lemma mapOptional_customFields:
  assumes "wire item"
  shows "mapOptional (\<lambda>cfs. mapThrowing (mapCustomField s2n) (toArray cfs))
           (getProp item ''custom_fields'') =
         (if truthy (getProp item ''custom_fields'')
             \<and> list_ex (\<lambda>cf. ownToString (getProp (getProp cf ''field'') ''id''))
                  (toArray (getProp item ''custom_fields''))
          then Inl TypeError
          else Inr (if truthy (getProp item ''custom_fields'')
                    then Some (map (specCustomField s2n) (toArray (getProp item ''custom_fields'')))
                    else None))"
proof (cases "truthy (getProp item ''custom_fields'')")
  case True
  then have "getProp item ''custom_fields'' \<noteq> JUndefined" by auto
  with assms have "wire (getProp item ''custom_fields'')" by (rule wire_getProp)
  from customFields_eq [OF this, of s2n] True show ?thesis
    by (simp add: mapOptional_def bindT_def)
next
  case False
  then show ?thesis by (simp add: mapOptional_def)
qed

lemma mapSoapIssue_eq:
  assumes "wire item"
  shows "mapSoapIssue s2n item =
           (if numbersConvert item then Inr (specIssue s2n item) else Inl TypeError)"
  using wire_not_nullish [OF assms]
  by (simp add: mapSoapIssue_def NumberOr0_eq mapRef_eq mapPerson_eq mapOptional_person
        mapOptional_ref mapOptional_customFields [OF assms] bindT_def numbersConvert_def
        specIssue_def)

lemma coerceOrZero_not_NaN: "coerceOrZero n \<noteq> NaN"
  by (cases n) simp_all

text \<open>
  Claim C8, as amended. For every wire item none of whose values handed to \<^verbatim>\<open>Number\<close>
  is an object with an own \<^verbatim>\<open>toString\<close> property (or an array holding one),
  \<^verbatim>\<open>mapSoapIssue\<close> raises nothing and returns the issue the specification describes:
  each numeric field (the id of the item, of its status, project and reporter, of a
  present handler, priority and severity, and of the field of each present custom
  field) is \<^verbatim>\<open>Number(...) || 0\<close> of the wire value, never \<^verbatim>\<open>NaN\<close>, and 0 when the value is
  missing or not numeric, a non-numeric id string among them; handler, priority,
  severity and custom_fields are absent when absent on the wire and mapped field by
  field when present. On the other wire items \<^verbatim>\<open>Number\<close> raises a \<^verbatim>\<open>TypeError\<close>, and the
  mapping raises with it.
\<close>

theorem mapSoapIssue_coercion:
  assumes "wire item"
  shows "(numbersConvert item \<longrightarrow> mapSoapIssue s2n item = Inr (specIssue s2n item))
   \<and> (\<not> numbersConvert item \<longrightarrow> mapSoapIssue s2n item = Inl TypeError)
   \<and> (\<forall>v. NumberOr0 s2n v
             = (if ownToString v then Inl TypeError else Inr (coerceOrZero (ToNumber s2n v)))
            \<and> coerceOrZero (ToNumber s2n v) \<noteq> NaN)
   \<and> (\<forall>issue. mapSoapIssue s2n item = Inr issue \<longrightarrow>
         issue_id issue = coerceOrZero (ToNumber s2n (getProp item ''id''))
       \<and> (getProp item ''id'' = JUndefined \<longrightarrow> issue_id issue = Num 0)
       \<and> (\<forall>str. getProp item ''id'' = JString str \<and> s2n str = NaN \<longrightarrow> issue_id issue = Num 0)
       \<and> ref_id (status issue)
           = coerceOrZero (ToNumber s2n (getProp (getProp item ''status'') ''id''))
       \<and> ref_id (project issue)
           = coerceOrZero (ToNumber s2n (getProp (getProp item ''project'') ''id''))
       \<and> person_id (reporter issue)
           = coerceOrZero (ToNumber s2n (getProp (getProp item ''reporter'') ''id''))
       \<and> (getProp item ''handler'' = JUndefined \<longrightarrow> handler issue = None)
       \<and> (getProp item ''priority'' = JUndefined \<longrightarrow> priority issue = None)
       \<and> (getProp item ''severity'' = JUndefined \<longrightarrow> severity issue = None)
       \<and> (getProp item ''custom_fields'' = JUndefined \<longrightarrow> custom_fields issue = None)
       \<and> (truthy (getProp item ''handler'') \<longrightarrow>
             handler issue
               = Some (Person (coerceOrZero (ToNumber s2n (getProp (getProp item ''handler'') ''id'')))
                              (or_js (getProp (getProp item ''handler'') ''name'') (JString []))
                              (or_js (getProp (getProp item ''handler'') ''email'') (JString []))))
       \<and> (truthy (getProp item ''priority'') \<longrightarrow>
             priority issue
               = Some (NamedRef (coerceOrZero (ToNumber s2n (getProp (getProp item ''priority'') ''id'')))
                                (or_js (getProp (getProp item ''priority'') ''name'') (JString []))))
       \<and> (truthy (getProp item ''severity'') \<longrightarrow>
             severity issue
               = Some (NamedRef (coerceOrZero (ToNumber s2n (getProp (getProp item ''severity'') ''id'')))
                                (or_js (getProp (getProp item ''severity'') ''name'') (JString []))))
       \<and> (truthy (getProp item ''custom_fields'') \<longrightarrow>
             custom_fields issue
               = Some (map (\<lambda>cf. CustomField
                                   (NamedRef
                                      (coerceOrZero (ToNumber s2n (getProp (getProp cf ''field'') ''id'')))
                                      (or_js (getProp (getProp cf ''field'') ''name'') (JString [])))
                                   (or_js (getProp cf ''value'') (JString [])))
                           (toArray (getProp item ''custom_fields'')))))"
proof (intro conjI impI allI)
  note eq = mapSoapIssue_eq [OF assms, of s2n]
  {
    assume "numbersConvert item"
    then show "mapSoapIssue s2n item = Inr (specIssue s2n item)" by (simp add: eq)
  next
    assume "\<not> numbersConvert item"
    then show "mapSoapIssue s2n item = Inl TypeError" by (simp add: eq)
  next
    fix v
    show "NumberOr0 s2n v
            = (if ownToString v then Inl TypeError else Inr (coerceOrZero (ToNumber s2n v)))"
      by (rule NumberOr0_eq)
    show "coerceOrZero (ToNumber s2n v) \<noteq> NaN" by (rule coerceOrZero_not_NaN)
  next
    fix issue
    assume i: "mapSoapIssue s2n item = Inr issue"
    then have isp: "issue = specIssue s2n item"
      using eq by (simp split: if_splits)
    show "issue_id issue = coerceOrZero (ToNumber s2n (getProp item ''id''))"
      by (simp add: isp specIssue_def)
    show "ref_id (status issue)
           = coerceOrZero (ToNumber s2n (getProp (getProp item ''status'') ''id''))"
      by (simp add: isp specIssue_def specRef_def)
    show "ref_id (project issue)
           = coerceOrZero (ToNumber s2n (getProp (getProp item ''project'') ''id''))"
      by (simp add: isp specIssue_def specRef_def)
    show "person_id (reporter issue)
           = coerceOrZero (ToNumber s2n (getProp (getProp item ''reporter'') ''id''))"
      by (simp add: isp specIssue_def specPerson_def)
    {
      assume "getProp item ''id'' = JUndefined"
      then show "issue_id issue = Num 0" by (simp add: isp specIssue_def)
    next
      fix str
      assume "getProp item ''id'' = JString str \<and> s2n str = NaN"
      then show "issue_id issue = Num 0" by (simp add: isp specIssue_def)
    next
      assume "getProp item ''handler'' = JUndefined"
      then show "handler issue = None" by (simp add: isp specIssue_def)
    next
      assume "getProp item ''priority'' = JUndefined"
      then show "priority issue = None" by (simp add: isp specIssue_def)
    next
      assume "getProp item ''severity'' = JUndefined"
      then show "severity issue = None" by (simp add: isp specIssue_def)
    next
      assume "getProp item ''custom_fields'' = JUndefined"
      then show "custom_fields issue = None" by (simp add: isp specIssue_def)
    next
      assume "truthy (getProp item ''handler'')"
      then show "handler issue
               = Some (Person (coerceOrZero (ToNumber s2n (getProp (getProp item ''handler'') ''id'')))
                              (or_js (getProp (getProp item ''handler'') ''name'') (JString []))
                              (or_js (getProp (getProp item ''handler'') ''email'') (JString [])))"
        by (simp add: isp specIssue_def specPerson_def)
    next
      assume "truthy (getProp item ''priority'')"
      then show "priority issue
               = Some (NamedRef (coerceOrZero (ToNumber s2n (getProp (getProp item ''priority'') ''id'')))
                                (or_js (getProp (getProp item ''priority'') ''name'') (JString [])))"
        by (simp add: isp specIssue_def specRef_def)
    next
      assume "truthy (getProp item ''severity'')"
      then show "severity issue
               = Some (NamedRef (coerceOrZero (ToNumber s2n (getProp (getProp item ''severity'') ''id'')))
                                (or_js (getProp (getProp item ''severity'') ''name'') (JString [])))"
        by (simp add: isp specIssue_def specRef_def)
    next
      assume "truthy (getProp item ''custom_fields'')"
      then show "custom_fields issue
               = Some (map (\<lambda>cf. CustomField
                                   (NamedRef
                                      (coerceOrZero (ToNumber s2n (getProp (getProp cf ''field'') ''id'')))
                                      (or_js (getProp (getProp cf ''field'') ''name'') (JString [])))
                                   (or_js (getProp cf ''value'') (JString [])))
                           (toArray (getProp item ''custom_fields'')))"
        by (simp add: isp specIssue_def specCustomField_def specRef_def)
    }
  }
qed

theorem mapSoapIssue_coercion_witness:
  "wire wireItem \<and> numbersConvert wireItem
   \<and> (\<exists>issue. mapSoapIssue decimalStringToNumber wireItem = Inr issue
        \<and> issue_id issue = Num 0
        \<and> ref_id (status issue) = Num 10
        \<and> person_id (reporter issue) = Num 12
        \<and> handler issue = None \<and> priority issue = None \<and> severity issue = None
        \<and> custom_fields issue = None)
   \<and> wire wireItemWithField \<and> numbersConvert wireItemWithField
   \<and> (\<exists>issue. mapSoapIssue decimalStringToNumber wireItemWithField = Inr issue
        \<and> issue_id issue = Num 7
        \<and> custom_fields issue
            = Some [CustomField (NamedRef (Num 0) (JString ''Build'')) (JString ''42'')])"
proof -
  have w: "wire wireItem" by (simp add: wireItem_def)
  have c: "numbersConvert wireItem" by (simp add: wireItem_def numbersConvert_def)
  have w2: "wire wireItemWithField" by (simp add: wireItemWithField_def)
  have c2: "numbersConvert wireItemWithField"
    by (simp add: wireItemWithField_def numbersConvert_def toArray_def)
  note t = mapSoapIssue_coercion [OF w, of decimalStringToNumber]
  note t2 = mapSoapIssue_coercion [OF w2, of decimalStringToNumber]
  have r: "mapSoapIssue decimalStringToNumber wireItem = Inr (specIssue decimalStringToNumber wireItem)"
    using t c by blast
  have r2: "mapSoapIssue decimalStringToNumber wireItemWithField
              = Inr (specIssue decimalStringToNumber wireItemWithField)"
    using t2 c2 by blast
  have v: "issue_id (specIssue decimalStringToNumber wireItem) = Num 0"
    "ref_id (status (specIssue decimalStringToNumber wireItem)) = Num 10"
    "person_id (reporter (specIssue decimalStringToNumber wireItem)) = Num 12"
    "handler (specIssue decimalStringToNumber wireItem) = None"
    "priority (specIssue decimalStringToNumber wireItem) = None"
    "severity (specIssue decimalStringToNumber wireItem) = None"
    "custom_fields (specIssue decimalStringToNumber wireItem) = None"
    by (simp_all add: specIssue_def specRef_def specPerson_def wireItem_def
          decimalStringToNumber_def)
  have v2: "issue_id (specIssue decimalStringToNumber wireItemWithField) = Num 7"
    "custom_fields (specIssue decimalStringToNumber wireItemWithField)
       = Some [CustomField (NamedRef (Num 0) (JString ''Build'')) (JString ''42'')]"
    by (simp_all add: specIssue_def specRef_def specCustomField_def wireItemWithField_def
          decimalStringToNumber_def toArray_def or_js_def)
  from w c w2 c2 r r2 v v2 show ?thesis by simp
qed

text \<open>A wire item whose id element has a child named \<^verbatim>\<open>toString\<close>: the mapping raises
  instead of giving the id 0.\<close>

theorem mapSoapIssue_toString_counterexample:
  "wire toStringIdItem \<and> mapSoapIssue decimalStringToNumber toStringIdItem = Inl TypeError"
  by (simp add: toStringIdItem_def mapSoapIssue_def NumberOr0_def Number_js_def bindT_def)

subsection \<open>Handling the SOAP search response\<close>






end
